theory Spec2Isabelle
  imports Complex_Main
begin

section \<open>The vectorizer predictor (predict.py)\<close>

text \<open>
  The repository is one Python class, \<open>Predictor\<close>, whose method \<open>predict\<close> is served by
  the cog framework: cog checks every argument against the \<open>Input(...)\<close> declaration of
  its parameter (\<open>choices\<close>, \<open>ge\<close>, \<open>le\<close>), and only then calls \<open>predict\<close>. The body
  opens the image, builds the argument list of the external \<open>vtracer\<close> binary, runs it
  with \<open>subprocess.run(..., check=True)\<close> and returns the path of the SVG file.

  Everything outside the Python process is a field of the record \<open>world\<close>: the file
  system, the programs on the search path, the clock, the temporary-name generator, the
  image decoder. Exceptions are values of \<open>py_error\<close>; a function that can raise returns
  \<open>py_error + 'a\<close>. Console output (the rich tables and panels) changes nothing that is
  returned; it is modelled where it can raise: where a printed value is computed by a
  division, and where a string that comes from outside is printed, since the console
  reads every string as rich markup.
\<close>

subsection \<open>Values, errors, the world\<close>

type_synonym path = string
type_synonym bytes = string
type_synonym filesystem = "path \<rightharpoonup> bytes"

text \<open>What \<open>Image.open\<close> yields: \<open>img.format\<close>, \<open>img.size\<close>, \<open>img.mode\<close>.\<close>

record pil_image =
  img_format :: string
  img_size :: "nat \<times> nat"
  img_mode :: string

text \<open>
  What a finished child process leaves behind: its return code and the bytes it wrote
  to its two captured streams. \<open>subprocess.run\<close> hands back the same record with the
  streams decoded.
\<close>

record completed_process =
  returncode :: int
  stdout :: string
  stderr :: string

text \<open>
  A program takes its argument vector and the file system, and leaves a result and a
  file system. The arguments reach it as the list that was passed: no shell splits or
  expands them.
\<close>

type_synonym program = "string list \<Rightarrow> filesystem \<Rightarrow> completed_process \<times> filesystem"

text \<open>
  The exceptions that can leave \<open>predict\<close>. \<open>ValidationError\<close> is cog's and carries the
  names of the offending parameters; \<open>CalledProcessError\<close> is \<open>subprocess\<close>'s and carries
  \<open>returncode\<close>, \<open>cmd\<close>, \<open>stdout\<close> and \<open>stderr\<close>; \<open>UnicodeDecodeError\<close> is raised
  when a captured stream is not text; \<open>MarkupError\<close> is rich's, raised when a printed
  string is not well-formed markup.
\<close>

datatype py_error =
    ValidationError "string list"
  | FileNotFoundError path
  | UnidentifiedImageError path
  | FileExistsError
  | IndexError
  | CalledProcessError int "string list" string string
  | UnicodeDecodeError
  | MarkupError
  | ZeroDivisionError

text \<open>
  Floats are modelled by the rationals they denote. The comparisons of the bounds
  (3.5 and 50.0 are exact floats) and the test for a zero divisor are exact on floats,
  so they agree with the model; \<open>float_str\<close> is Python's \<open>str\<close> on floats, taken as given.
  \<open>time_readings\<close> are the successive values of \<open>time.time()\<close>; \<open>candidate_names\<close> are
  the names the random name generator of \<open>tempfile\<close> hands out, in order; \<open>spawned\<close> logs
  every child process that was started: its argument vector and how it ended.
  \<open>stream_decode\<close> is the strict decoder of the locale's encoding, which \<open>text=True\<close>
  applies to the captured streams (\<open>None\<close> where Python raises \<open>UnicodeDecodeError\<close>);
  \<open>markup_error\<close> says of a string holding a bracket whether rich's markup parser
  rejects it. Both are taken as given.
\<close>

record world =
  files :: filesystem
  path_programs :: "string \<rightharpoonup> program"
  spawned :: "(string list \<times> completed_process) list"
  time_readings :: "nat \<Rightarrow> rat"
  time_calls :: nat
  tempdir :: path
  candidate_names :: "string list"
  decode :: "bytes \<Rightarrow> pil_image option"
  float_str :: "rat \<Rightarrow> string"
  stream_decode :: "bytes \<Rightarrow> string option"
  markup_error :: "string \<Rightarrow> bool"

subsection \<open>The library calls that predict makes\<close>

text \<open>\<open>str\<close> on an int: decimal digits, a minus sign for a negative number.\<close>

definition digit_char :: "nat \<Rightarrow> char" where
  "digit_char d = ''0123456789'' ! d"

function str_nat :: "nat \<Rightarrow> string" where
  "str_nat n = (if n < 10 then [digit_char n] else str_nat (n div 10) @ [digit_char (n mod 10)])"
  by pat_completeness auto
termination
  by (relation "measure id") auto

definition str_int :: "int \<Rightarrow> string" where
  "str_int i = (if i < 0 then CHR ''-'' # str_nat (nat (- i)) else str_nat (nat i))"

text \<open>\<open>time.time()\<close>: the next reading of the clock.\<close>

definition time_time :: "world \<Rightarrow> rat \<times> world" where
  "time_time w = (time_readings w (time_calls w), w\<lparr>time_calls := Suc (time_calls w)\<rparr>)"

text \<open>
  \<open>Image.open(path)\<close>: \<open>FileNotFoundError\<close> when there is no such file,
  \<open>UnidentifiedImageError\<close> when its content is not an image.
\<close>

definition Image_open :: "world \<Rightarrow> path \<Rightarrow> py_error + pil_image" where
  "Image_open w p =
     (case files w p of
        None \<Rightarrow> Inl (FileNotFoundError p)
      | Some b \<Rightarrow>
          (case decode w b of
             None \<Rightarrow> Inl (UnidentifiedImageError p)
           | Some img \<Rightarrow> Inr img))"

text \<open>\<open>os.path.getsize(path)\<close>: the length of the file, or \<open>FileNotFoundError\<close>.\<close>

definition getsize :: "world \<Rightarrow> path \<Rightarrow> py_error + nat" where
  "getsize w p =
     (case files w p of
        None \<Rightarrow> Inl (FileNotFoundError p)
      | Some b \<Rightarrow> Inr (length b))"

text \<open>\<open>os.path.join(a, b)\<close> on POSIX, for two components.\<close>

definition path_join :: "path \<Rightarrow> path \<Rightarrow> path" where
  "path_join a b =
     (if b \<noteq> [] \<and> hd b = CHR ''/'' then b
      else if a = [] \<or> last a = CHR ''/'' then a @ b
      else a @ ''/'' @ b)"

text \<open>
  \<open>tempfile.mktemp(suffix)\<close>: the first candidate \<open>dir/tmp<name><suffix>\<close> that does not
  exist; \<open>FileExistsError\<close> when the candidates run out. The file is not created.
\<close>

fun mktemp_loop :: "filesystem \<Rightarrow> path \<Rightarrow> string \<Rightarrow> string \<Rightarrow> string list \<Rightarrow> py_error + path" where
  "mktemp_loop fs dir prefix suffix [] = Inl FileExistsError"
| "mktemp_loop fs dir prefix suffix (name # names) =
     (let file = path_join dir (prefix @ name @ suffix)
      in if fs file = None then Inr file
         else mktemp_loop fs dir prefix suffix names)"

definition mktemp :: "world \<Rightarrow> string \<Rightarrow> py_error + path" where
  "mktemp w suffix = mktemp_loop (files w) (tempdir w) ''tmp'' suffix (candidate_names w)"

text \<open>
  The newline translation of text mode: \<open>data.replace("\\r\\n", "\\n").replace("\\r", "\\n")\<close>.
\<close>

definition CR :: char where
  "CR = CHR 0x0D"

definition LF :: char where
  "LF = CHR 0x0A"

fun replace_crlf :: "string \<Rightarrow> string" where
  "replace_crlf (c # d # cs) =
     (if c = CR \<and> d = LF then LF # replace_crlf cs else c # replace_crlf (d # cs))"
| "replace_crlf cs = cs"

definition replace_cr :: "string \<Rightarrow> string" where
  "replace_cr cs = map (\<lambda>c. if c = CR then LF else c) cs"

definition translate_newlines :: "string \<Rightarrow> string" where
  "translate_newlines data = replace_cr (replace_crlf data)"

text \<open>
  \<open>subprocess.run(cmd, capture_output=True, text=True, check=True)\<close> with a list
  \<open>cmd\<close>: the program named by \<open>cmd[0]\<close> is looked up on the search path
  (\<open>FileNotFoundError\<close> when absent), started with \<open>cmd\<close> as its argument vector, and
  awaited. With \<open>text=True\<close> the captured streams are decoded, standard output first,
  and their newlines translated; a stream that does not decode raises
  \<open>UnicodeDecodeError\<close>, whatever the return code. With \<open>check=True\<close> a non-zero
  return code then raises \<open>CalledProcessError\<close> carrying the decoded streams.
\<close>

definition subprocess_run :: "world \<Rightarrow> string list \<Rightarrow> (py_error + completed_process) \<times> world" where
  "subprocess_run w cmd =
     (case cmd of
        [] \<Rightarrow> (Inl IndexError, w)
      | exe # _ \<Rightarrow>
          (case path_programs w exe of
             None \<Rightarrow> (Inl (FileNotFoundError exe), w)
           | Some prog \<Rightarrow>
               (let (cp, fs') = prog cmd (files w);
                    w' = w\<lparr>files := fs', spawned := spawned w @ [(cmd, cp)]\<rparr>
                in case stream_decode w (stdout cp) of
                     None \<Rightarrow> (Inl UnicodeDecodeError, w')
                   | Some out \<Rightarrow>
                   (case stream_decode w (stderr cp) of
                     None \<Rightarrow> (Inl UnicodeDecodeError, w')
                   | Some err \<Rightarrow>
                       if returncode cp \<noteq> 0
                       then (Inl (CalledProcessError (returncode cp) cmd
                               (translate_newlines out) (translate_newlines err)), w')
                       else (Inr (cp\<lparr>stdout := translate_newlines out,
                                    stderr := translate_newlines err\<rparr>), w')))))"

text \<open>
  \<open>console.print(text)\<close>, as far as it can raise: rich reads the string as markup and
  raises \<open>MarkupError\<close> on a closing tag that matches no open tag. Its parser returns a
  string without an opening bracket as it is, so only a string with a bracket can fail.
\<close>

definition console_print :: "world \<Rightarrow> string \<Rightarrow> py_error + unit" where
  "console_print w text =
     (if CHR ''['' \<in> set text \<and> markup_error w text then Inl MarkupError else Inr ())"

text \<open>Python's \<open>/\<close>: \<open>ZeroDivisionError\<close> on a zero divisor.\<close>

definition py_truediv :: "rat \<Rightarrow> rat \<Rightarrow> py_error + rat" where
  "py_truediv a b = (if b = 0 then Inl ZeroDivisionError else Inr (a / b))"

subsection \<open>The request and its declared inputs\<close>

text \<open>The arguments of \<open>predict\<close>, in the order of its signature.\<close>

record request =
  image_path :: path
  color_mode :: string
  hierarchical :: string
  filter_speckle :: int
  color_precision :: int
  layer_difference :: int
  corner_threshold :: int
  segment_length :: rat
  splice_threshold :: int

datatype py_value = PathV path | StrV string | IntV int | FloatV rat

text \<open>An \<open>Input(...)\<close> declaration: its \<open>choices\<close>, \<open>ge\<close> and \<open>le\<close>, each optional.\<close>

record input_decl =
  choices :: "string list option"
  ge :: "rat option"
  le :: "rat option"

definition Input :: "string list option \<Rightarrow> rat option \<Rightarrow> rat option \<Rightarrow> input_decl" where
  "Input cs lo hi = \<lparr>choices = cs, ge = lo, le = hi\<rparr>"

definition ge_ok :: "rat option \<Rightarrow> rat \<Rightarrow> bool" where
  "ge_ok b x = (case b of None \<Rightarrow> True | Some lo \<Rightarrow> lo \<le> x)"

definition le_ok :: "rat option \<Rightarrow> rat \<Rightarrow> bool" where
  "le_ok b x = (case b of None \<Rightarrow> True | Some hi \<Rightarrow> x \<le> hi)"

definition choices_ok :: "string list option \<Rightarrow> string \<Rightarrow> bool" where
  "choices_ok b s = (case b of None \<Rightarrow> True | Some cs \<Rightarrow> s \<in> set cs)"

text \<open>
  What cog checks of one argument: a string is one of the \<open>choices\<close>, a number lies
  between \<open>ge\<close> and \<open>le\<close>, both inclusive.
\<close>

fun input_ok :: "input_decl \<Rightarrow> py_value \<Rightarrow> bool" where
  "input_ok d (PathV p) = True"
| "input_ok d (StrV s) = choices_ok (choices d) s"
| "input_ok d (IntV n) = (ge_ok (ge d) (of_int n) \<and> le_ok (le d) (of_int n))"
| "input_ok d (FloatV x) = (ge_ok (ge d) x \<and> le_ok (le d) x)"

text \<open>The signature of \<open>predict\<close>: each parameter's name, declaration and argument.\<close>

definition predict_inputs :: "request \<Rightarrow> (string \<times> input_decl \<times> py_value) list" where
  "predict_inputs r =
     [(''image'', Input None None None, PathV (image_path r)),
      (''color_mode'', Input (Some [''color'', ''binary'']) None None, StrV (color_mode r)),
      (''hierarchical'', Input (Some [''stacked'', ''cutout'']) None None, StrV (hierarchical r)),
      (''filter_speckle'', Input None (Some 0) (Some 100), IntV (filter_speckle r)),
      (''color_precision'', Input None (Some 1) (Some 8), IntV (color_precision r)),
      (''layer_difference'', Input None (Some 0) (Some 100), IntV (layer_difference r)),
      (''corner_threshold'', Input None (Some 0) (Some 180), IntV (corner_threshold r)),
      (''segment_length'', Input None (Some (7 / 2)) (Some 50), FloatV (segment_length r)),
      (''splice_threshold'', Input None (Some 0) (Some 180), IntV (splice_threshold r))]"

text \<open>The parameters whose argument violates its declaration, in signature order.\<close>

fun violations :: "(string \<times> input_decl \<times> py_value) list \<Rightarrow> string list" where
  "violations [] = []"
| "violations ((name, d, v) # rest) =
     (if input_ok d v then violations rest else name # violations rest)"

definition validate :: "request \<Rightarrow> py_error + unit" where
  "validate r =
     (case violations (predict_inputs r) of
        [] \<Rightarrow> Inr ()
      | n # ns \<Rightarrow> Inl (ValidationError (n # ns)))"

subsection \<open>The body of predict\<close>

text \<open>Lines 110-122: the argument vector of the engine.\<close>

definition build_cmd :: "world \<Rightarrow> request \<Rightarrow> path \<Rightarrow> string list" where
  "build_cmd w r output_path =
     [''vtracer'',
      ''--input'', image_path r,
      ''--output'', output_path,
      ''--colormode'', color_mode r,
      ''--hierarchical'', hierarchical r,
      ''--filter_speckle'', str_int (filter_speckle r),
      ''--color_precision'', str_int (color_precision r),
      ''--layer_difference'', str_int (layer_difference r),
      ''--corner_threshold'', str_int (corner_threshold r),
      ''--length_threshold'', float_str w (segment_length r),
      ''--splice_threshold'', str_int (splice_threshold r)]"

text \<open>
  Line 160: \<open>(1 - output_size / file_size) * 100 if file_size > 0 else 0\<close>, with the
  input size first as the specification writes it.
\<close>

definition compression_ratio :: "nat \<Rightarrow> nat \<Rightarrow> py_error + rat" where
  "compression_ratio file_size output_size =
     (if file_size > 0
      then (case py_truediv (of_nat output_size) (of_nat file_size) of
              Inl e \<Rightarrow> Inl e
            | Inr q \<Rightarrow> Inr ((1 - q) * 100))
      else Inr 0)"

text \<open>Line 173: \<open>(img.size[0] * img.size[1]) / elapsed_time / 1000\<close>.\<close>

definition speed :: "pil_image \<Rightarrow> rat \<Rightarrow> py_error + rat" where
  "speed img elapsed_time =
     (case py_truediv (of_nat (fst (img_size img) * snd (img_size img))) elapsed_time of
        Inl e \<Rightarrow> Inl e
      | Inr q \<Rightarrow> py_truediv q 1000)"

text \<open>
  Line 104, \<open>console.print(settings)\<close>: the cells of the table are rendered as markup.
  The labels are literals and three values are numbers; \<open>color_mode\<close> and
  \<open>hierarchical\<close> are strings of the caller. (The table of line 94 shows
  \<open>img.format\<close> and \<open>img.mode\<close>, names from Pillow's own registries, which hold no
  bracket, and numbers.)
\<close>

definition print_settings :: "world \<Rightarrow> request \<Rightarrow> py_error + unit" where
  "print_settings w r =
     (case console_print w (color_mode r) of
        Inl e \<Rightarrow> Inl e
      | Inr _ \<Rightarrow> console_print w (hierarchical r))"

text \<open>
  Lines 152-155, the \<open>except\<close> clause for \<open>CalledProcessError\<close>: it prints a literal
  line, prints \<open>[red]{e.stderr}[/red]\<close>, and re-raises the exception. If the second print
  raises, that exception leaves \<open>predict\<close> instead. Other exceptions are not caught.
\<close>

definition on_engine_error :: "world \<Rightarrow> py_error \<Rightarrow> py_error" where
  "on_engine_error w e =
     (case e of
        CalledProcessError rc cmd out err \<Rightarrow>
          (case console_print w (''[red]'' @ err @ ''[/red]'') of
             Inl e' \<Rightarrow> e'
           | Inr _ \<Rightarrow> e)
      | _ \<Rightarrow> e)"

text \<open>\<open>predict\<close>, statement by statement.\<close>

definition predict :: "world \<Rightarrow> request \<Rightarrow> (py_error + path) \<times> world" where
  "predict w r =
     (let (start_time, w1) = time_time w in
      case Image_open w1 (image_path r) of
        Inl e \<Rightarrow> (Inl e, w1)
      | Inr img \<Rightarrow>
      (case getsize w1 (image_path r) of
        Inl e \<Rightarrow> (Inl e, w1)
      | Inr file_size \<Rightarrow>
      (case print_settings w1 r of
        Inl e \<Rightarrow> (Inl e, w1)
      | Inr _ \<Rightarrow>
      (case mktemp w1 ''.svg'' of
        Inl e \<Rightarrow> (Inl e, w1)
      | Inr output_path \<Rightarrow>
      (case subprocess_run w1 (build_cmd w1 r output_path) of
        (Inl e, w2) \<Rightarrow> (Inl (on_engine_error w2 e), w2)
      | (Inr result, w2) \<Rightarrow>
      (let (end_time, w3) = time_time w2;
           elapsed_time = end_time - start_time in
       case getsize w3 output_path of
        Inl e \<Rightarrow> (Inl e, w3)
      | Inr output_size \<Rightarrow>
      (case compression_ratio file_size output_size of
        Inl e \<Rightarrow> (Inl e, w3)
      | Inr ratio \<Rightarrow>
      (case speed img elapsed_time of
        Inl e \<Rightarrow> (Inl e, w3)
      | Inr pixels_per_ms \<Rightarrow> (Inr output_path, w3)))))))))"

text \<open>The endpoint as cog serves it: the declared inputs are checked, then \<open>predict\<close> runs.\<close>

definition cog_predict :: "world \<Rightarrow> request \<Rightarrow> (py_error + path) \<times> world" where
  "cog_predict w r =
     (case validate r of
        Inl e \<Rightarrow> (Inl e, w)
      | Inr _ \<Rightarrow> predict w r)"

subsection \<open>The parameter table of the specification\<close>

text \<open>
  The domain table of the specification, written out: the two enumerations and the six
  closed intervals. It is compared below with what the declarations of the source check.
\<close>

definition in_declared_domain :: "request \<Rightarrow> bool" where
  "in_declared_domain r \<longleftrightarrow>
     (color_mode r = ''color'' \<or> color_mode r = ''binary'') \<and>
     (hierarchical r = ''stacked'' \<or> hierarchical r = ''cutout'') \<and>
     0 \<le> filter_speckle r \<and> filter_speckle r \<le> 100 \<and>
     1 \<le> color_precision r \<and> color_precision r \<le> 8 \<and>
     0 \<le> layer_difference r \<and> layer_difference r \<le> 100 \<and>
     0 \<le> corner_threshold r \<and> corner_threshold r \<le> 180 \<and>
     7 / 2 \<le> segment_length r \<and> segment_length r \<le> 50 \<and>
     0 \<le> splice_threshold r \<and> splice_threshold r \<le> 180"

text \<open>A request is rejected with a \<open>ValidationError\<close> that names the parameter.\<close>

definition rejected_naming :: "string \<Rightarrow> request \<Rightarrow> bool" where
  "rejected_naming name r =
     (case validate r of
        Inl (ValidationError names) \<Rightarrow> name \<in> set names
      | _ \<Rightarrow> False)"

subsection \<open>Example worlds\<close>

text \<open>The defaults of the signature, on an image at \<open>/in/cat.png\<close>.\<close>

definition default_request :: request where
  "default_request =
     \<lparr>image_path = ''/in/cat.png'', color_mode = ''color'', hierarchical = ''stacked'',
      filter_speckle = 4, color_precision = 6, layer_difference = 16,
      corner_threshold = 60, segment_length = 10, splice_threshold = 45\<rparr>"

text \<open>
  The decoder of the examples is ASCII: a byte with its highest bit set does not decode.
  Their markup parser rejects one string, which rich rejects: its closing tag
  \<open>[/in/cat.png]\<close> matches no open tag.
\<close>

definition ascii_decode :: "bytes \<Rightarrow> string option" where
  "ascii_decode b = (if list_all (\<lambda>c. \<not> digit7 c) b then Some b else None)"

definition demo_markup_error :: "string \<Rightarrow> bool" where
  "demo_markup_error text \<longleftrightarrow> text = ''[red]cannot open [/in/cat.png][/red]''"

text \<open>Three engines: one that writes an SVG, one that fails, one that writes nothing into its file.\<close>

definition svg_engine :: program where
  "svg_engine argv fs =
     (\<lparr>returncode = 0, stdout = [], stderr = []\<rparr>, fs(argv ! 4 \<mapsto> ''<svg/>''))"

definition failing_engine :: program where
  "failing_engine argv fs =
     (\<lparr>returncode = 1, stdout = [], stderr = ''invalid color mode''\<rparr>, fs)"

definition empty_engine :: program where
  "empty_engine argv fs =
     (\<lparr>returncode = 0, stdout = [], stderr = []\<rparr>, fs(argv ! 4 \<mapsto> []))"

definition cat_image :: pil_image where
  "cat_image = \<lparr>img_format = ''PNG'', img_size = (100, 100), img_mode = ''RGB''\<rparr>"

text \<open>
  A world with one PNG file and one text file, the given engine as \<open>vtracer\<close>, and a
  clock that advances by \<open>step\<close> seconds between two readings.
\<close>

definition demo_world :: "program \<Rightarrow> rat \<Rightarrow> world" where
  "demo_world engine step =
     \<lparr>files = [''/in/cat.png'' \<mapsto> ''PNG-cat'', ''/in/notes.txt'' \<mapsto> ''hello''],
      path_programs = [''vtracer'' \<mapsto> engine],
      spawned = [],
      time_readings = (\<lambda>n. of_nat n * step),
      time_calls = 0,
      tempdir = ''/tmp'',
      candidate_names = [''k3x9q2ab'', ''z0z0z0z0''],
      decode = (\<lambda>b. if b = ''PNG-cat'' then Some cat_image else None),
      float_str = (\<lambda>x. if x = 10 then ''10.0'' else ''other''),
      stream_decode = ascii_decode,
      markup_error = demo_markup_error\<rparr>"

text \<open>
  Three more failing engines: one ends its message with a carriage return and a line
  feed, one writes a byte that is not text, one quotes a path in brackets.
\<close>

definition crlf_engine :: program where
  "crlf_engine argv fs =
     (\<lparr>returncode = 1, stdout = [], stderr = ''bad input'' @ [CR, LF]\<rparr>, fs)"

definition binary_engine :: program where
  "binary_engine argv fs =
     (\<lparr>returncode = 1, stdout = [], stderr = [CHR 0xFF]\<rparr>, fs)"

definition bracket_engine :: program where
  "bracket_engine argv fs =
     (\<lparr>returncode = 1, stdout = [], stderr = ''cannot open [/in/cat.png]''\<rparr>, fs)"

text \<open>An engine that reports success and writes no file.\<close>

definition silent_engine :: program where
  "silent_engine argv fs = (\<lparr>returncode = 0, stdout = [], stderr = []\<rparr>, fs)"

text \<open>The argument vector of the default request in the example world.\<close>

definition demo_cmd :: "string list" where
  "demo_cmd =
     [''vtracer'', ''--input'', ''/in/cat.png'', ''--output'', ''/tmp/tmpk3x9q2ab.svg'',
      ''--colormode'', ''color'', ''--hierarchical'', ''stacked'', ''--filter_speckle'', ''4'',
      ''--color_precision'', ''6'', ''--layer_difference'', ''16'', ''--corner_threshold'', ''60'',
      ''--length_threshold'', ''10.0'', ''--splice_threshold'', ''45'']"

text \<open>
  What the specification assumes of the external engine, as a property of a program: its
  exit status, and on success the content of the file named by its output argument,
  depend only on the content of the file named by its input argument and on the other
  arguments. The two path values are elements 2 and 4 of the argument vector.
\<close>

definition deterministic_engine :: "program \<Rightarrow> bool" where
  "deterministic_engine prog \<longleftrightarrow>
     (\<forall>argv1 fs1 argv2 fs2.
        4 < length argv1 \<and> argv1[2 := [], 4 := []] = argv2[2 := [], 4 := []] \<and>
        fs1 (argv1 ! 2) = fs2 (argv2 ! 2) \<longrightarrow>
        returncode (fst (prog argv1 fs1)) = returncode (fst (prog argv2 fs2)) \<and>
        (returncode (fst (prog argv1 fs1)) = 0 \<longrightarrow>
           snd (prog argv1 fs1) (argv1 ! 4) = snd (prog argv2 fs2) (argv2 ! 4)))"

text \<open>An engine whose output is computed from the input file and the options.\<close>

definition tracing_engine :: program where
  "tracing_engine argv fs =
     (case fs (argv ! 2) of
        None \<Rightarrow> (\<lparr>returncode = 2, stdout = [], stderr = ''cannot read input''\<rparr>, fs)
      | Some img \<Rightarrow>
          (\<lparr>returncode = 0, stdout = [], stderr = []\<rparr>,
           fs(argv ! 4 \<mapsto> ''<svg>'' @ img @ concat (drop 5 argv) @ ''</svg>'')))"

text \<open>
  A second world: the same image under another name, another temporary directory whose
  first candidate name is taken, another clock.
\<close>

definition other_world :: "program \<Rightarrow> world" where
  "other_world engine =
     \<lparr>files = [''/data/copy.png'' \<mapsto> ''PNG-cat'', ''/var/tmp/tmpaaaaaaaa.svg'' \<mapsto> ''old''],
      path_programs = [''vtracer'' \<mapsto> engine],
      spawned = [],
      time_readings = (\<lambda>n. 100 + of_nat n * 3),
      time_calls = 7,
      tempdir = ''/var/tmp/'',
      candidate_names = [''aaaaaaaa'', ''bbbbbbbb''],
      decode = (\<lambda>b. if b = ''PNG-cat'' then Some cat_image else None),
      float_str = (\<lambda>x. if x = 10 then ''10.0'' else ''other''),
      stream_decode = ascii_decode,
      markup_error = demo_markup_error\<rparr>"

section \<open>How a run of predict ends\<close>

text \<open>
  One equation per way through the body: the image file is missing, it is not an image,
  a setting is not printable, no temporary name is free, the engine is not installed, or
  the engine runs.
\<close>

lemma console_print_plain: "CHR ''['' \<notin> set text \<Longrightarrow> console_print w text = Inr ()"
  by (simp add: console_print_def)

lemma console_print_time [simp]:
  "console_print (w\<lparr>time_calls := n\<rparr>) text = console_print w text"
  by (simp add: console_print_def)

lemma print_settings_time [simp]:
  "print_settings (w\<lparr>time_calls := n\<rparr>) r = print_settings w r"
  by (simp add: print_settings_def split: sum.splits)

lemma predict_no_file:
  "files w (image_path r) = None \<Longrightarrow>
   predict w r = (Inl (FileNotFoundError (image_path r)), w\<lparr>time_calls := Suc (time_calls w)\<rparr>)"
  by (simp add: predict_def time_time_def Image_open_def)

lemma predict_undecodable:
  "files w (image_path r) = Some b \<Longrightarrow> decode w b = None \<Longrightarrow>
   predict w r = (Inl (UnidentifiedImageError (image_path r)), w\<lparr>time_calls := Suc (time_calls w)\<rparr>)"
  by (simp add: predict_def time_time_def Image_open_def)

lemma predict_bad_settings:
  "files w (image_path r) = Some b \<Longrightarrow> decode w b = Some img \<Longrightarrow> print_settings w r = Inl e \<Longrightarrow>
   predict w r = (Inl e, w\<lparr>time_calls := Suc (time_calls w)\<rparr>)"
  by (simp add: predict_def time_time_def Image_open_def getsize_def)

lemma predict_no_temp:
  "files w (image_path r) = Some b \<Longrightarrow> decode w b = Some img \<Longrightarrow> print_settings w r = Inr u \<Longrightarrow>
   mktemp w ''.svg'' = Inl e \<Longrightarrow>
   predict w r = (Inl e, w\<lparr>time_calls := Suc (time_calls w)\<rparr>)"
  by (simp add: predict_def time_time_def Image_open_def getsize_def mktemp_def)

lemma predict_no_engine:
  "files w (image_path r) = Some b \<Longrightarrow> decode w b = Some img \<Longrightarrow> print_settings w r = Inr u \<Longrightarrow>
   mktemp w ''.svg'' = Inr out \<Longrightarrow> path_programs w ''vtracer'' = None \<Longrightarrow>
   predict w r = (Inl (FileNotFoundError ''vtracer''), w\<lparr>time_calls := Suc (time_calls w)\<rparr>)"
  by (simp add: predict_def time_time_def Image_open_def getsize_def mktemp_def subprocess_run_def
      build_cmd_def on_engine_error_def)

text \<open>When the engine runs: what becomes of the world, and how the run ends.\<close>

lemma predict_engine_world:
  assumes "files w (image_path r) = Some b" "decode w b = Some img" "print_settings w r = Inr u"
    "mktemp w ''.svg'' = Inr out" "path_programs w ''vtracer'' = Some prog"
    "prog (build_cmd w r out) (files w) = (cp, fs')"
  shows "spawned (snd (predict w r)) = spawned w @ [(build_cmd w r out, cp)]"
    and "files (snd (predict w r)) = fs'"
  using assms
  by (simp_all add: predict_def time_time_def Image_open_def getsize_def mktemp_def
      subprocess_run_def build_cmd_def Let_def split: option.splits sum.splits)

lemma predict_engine_undecoded:
  assumes "files w (image_path r) = Some b" "decode w b = Some img" "print_settings w r = Inr u"
    "mktemp w ''.svg'' = Inr out" "path_programs w ''vtracer'' = Some prog"
    "prog (build_cmd w r out) (files w) = (cp, fs')"
    "stream_decode w (stdout cp) = None \<or> stream_decode w (stderr cp) = None"
  shows "fst (predict w r) = Inl UnicodeDecodeError"
  using assms
  by (auto simp add: predict_def time_time_def Image_open_def getsize_def mktemp_def
      subprocess_run_def build_cmd_def on_engine_error_def Let_def split: option.splits)

lemma predict_engine_failed:
  assumes "files w (image_path r) = Some b" "decode w b = Some img" "print_settings w r = Inr u"
    "mktemp w ''.svg'' = Inr out" "path_programs w ''vtracer'' = Some prog"
    "prog (build_cmd w r out) (files w) = (cp, fs')"
    "stream_decode w (stdout cp) = Some sout" "stream_decode w (stderr cp) = Some serr"
    "returncode cp \<noteq> 0"
  shows "fst (predict w r) =
    (case console_print w (''[red]'' @ translate_newlines serr @ ''[/red]'') of
       Inl e \<Rightarrow> Inl e
     | Inr _ \<Rightarrow> Inl (CalledProcessError (returncode cp) (build_cmd w r out)
         (translate_newlines sout) (translate_newlines serr)))"
  using assms
  by (simp add: predict_def time_time_def Image_open_def getsize_def mktemp_def
      subprocess_run_def build_cmd_def on_engine_error_def Let_def console_print_def)

lemma predict_engine_succeeded:
  assumes "files w (image_path r) = Some b" "decode w b = Some img" "print_settings w r = Inr u"
    "mktemp w ''.svg'' = Inr out" "path_programs w ''vtracer'' = Some prog"
    "prog (build_cmd w r out) (files w) = (cp, fs')"
    "stream_decode w (stdout cp) = Some sout" "stream_decode w (stderr cp) = Some serr"
    "returncode cp = 0"
  shows "fst (predict w r) =
    (if fs' out = None then Inl (FileNotFoundError out)
     else if time_readings w (Suc (time_calls w)) = time_readings w (time_calls w)
       then Inl ZeroDivisionError
     else Inr out)"
  using assms
  by (simp add: predict_def time_time_def Image_open_def getsize_def mktemp_def
      subprocess_run_def build_cmd_def compression_ratio_def speed_def py_truediv_def Let_def
      split: option.splits)

text \<open>Every run of predict is one of the six; five of them stop before a process is started.\<close>

lemma predict_cases:
  obtains
    (no_file) "files w (image_path r) = None"
  | (undecodable) b where "files w (image_path r) = Some b" "decode w b = None"
  | (bad_settings) b img e where "files w (image_path r) = Some b" "decode w b = Some img"
      "print_settings w r = Inl e"
  | (no_temp) b img e where "files w (image_path r) = Some b" "decode w b = Some img"
      "print_settings w r = Inr ()" "mktemp w ''.svg'' = Inl e"
  | (no_engine) b img out where "files w (image_path r) = Some b" "decode w b = Some img"
      "print_settings w r = Inr ()" "mktemp w ''.svg'' = Inr out"
      "path_programs w ''vtracer'' = None"
  | (engine) b img out prog cp fs' where "files w (image_path r) = Some b" "decode w b = Some img"
      "print_settings w r = Inr ()" "mktemp w ''.svg'' = Inr out"
      "path_programs w ''vtracer'' = Some prog"
      "prog (build_cmd w r out) (files w) = (cp, fs')"
proof (cases "files w (image_path r)")
  case None
  then show ?thesis by (rule no_file)
next
  case (Some b)
  note fb = this
  show ?thesis
  proof (cases "decode w b")
    case None
    with fb show ?thesis by (rule undecodable)
  next
    case (Some img)
    note di = this
    show ?thesis
    proof (cases "print_settings w r")
      case (Inl e)
      with fb di show ?thesis by (rule bad_settings)
    next
      case (Inr u)
      then have ps: "print_settings w r = Inr ()" by simp
      show ?thesis
      proof (cases "mktemp w ''.svg''")
        case (Inl e)
        with fb di ps show ?thesis by (rule no_temp)
      next
        case (Inr out)
        note mo = this
        show ?thesis
        proof (cases "path_programs w ''vtracer''")
          case None
          with fb di ps mo show ?thesis by (rule no_engine)
        next
          case (Some prog)
          obtain cp fs' where "prog (build_cmd w r out) (files w) = (cp, fs')"
            by (cases "prog (build_cmd w r out) (files w)")
          with fb di ps mo Some show ?thesis by (rule engine)
        qed
      qed
    qed
  qed
qed

section \<open>The input declarations and the domain table\<close>

lemma violations_Nil_iff:
  "violations xs = [] \<longleftrightarrow> list_all (\<lambda>(n, d, v). input_ok d v) xs"
  by (induction xs rule: violations.induct) auto

lemma violations_set:
  "n \<in> set (violations xs) \<longleftrightarrow> list_ex (\<lambda>(m, d, v). m = n \<and> \<not> input_ok d v) xs"
  by (induction xs rule: violations.induct) auto

lemma violations_Nil_domain:
  "violations (predict_inputs r) = [] \<longleftrightarrow> in_declared_domain r"
  unfolding violations_Nil_iff predict_inputs_def Input_def in_declared_domain_def
  by (auto simp: ge_ok_def le_ok_def choices_ok_def)

lemma validate_Inr_iff: "validate r = Inr u \<longleftrightarrow> in_declared_domain r"
proof -
  have "validate r = Inr u \<longleftrightarrow> violations (predict_inputs r) = []"
    by (cases "violations (predict_inputs r)") (simp_all add: validate_def)
  then show ?thesis
    by (simp only: violations_Nil_domain)
qed

lemma validate_Inl:
  assumes "\<not> in_declared_domain r"
  shows "validate r = Inl (ValidationError (violations (predict_inputs r)))"
    and "violations (predict_inputs r) \<noteq> []"
proof -
  show ne: "violations (predict_inputs r) \<noteq> []"
    using assms by (simp only: violations_Nil_domain not_False_eq_True)
  then show "validate r = Inl (ValidationError (violations (predict_inputs r)))"
    by (cases "violations (predict_inputs r)") (simp_all add: validate_def)
qed

lemma rejected_naming_iff:
  "rejected_naming n r \<longleftrightarrow> n \<in> set (violations (predict_inputs r))"
  by (cases "violations (predict_inputs r)") (simp_all add: rejected_naming_def validate_def)

lemma cog_predict_valid: "in_declared_domain r \<Longrightarrow> cog_predict w r = predict w r"
  using validate_Inr_iff [of r "()"] by (simp add: cog_predict_def)

lemma cog_predict_invalid:
  "\<not> in_declared_domain r \<Longrightarrow>
   cog_predict w r = (Inl (ValidationError (violations (predict_inputs r))), w)"
  by (simp add: cog_predict_def validate_Inl)

text \<open>The declared values of the two enumerations hold no bracket, so they are printable.\<close>

lemma print_settings_in_domain: "in_declared_domain r \<Longrightarrow> print_settings w r = Inr ()"
  by (auto simp add: in_declared_domain_def print_settings_def console_print_def)

text \<open>What is known of a run that started a process, and of one that returned a path.\<close>

lemma cog_predict_started:
  assumes "spawned (snd (cog_predict w r)) = spawned w @ [(argv, cp)]"
  obtains b img out prog fs' where
    "in_declared_domain r" "files w (image_path r) = Some b" "decode w b = Some img"
    "print_settings w r = Inr ()"
    "mktemp w ''.svg'' = Inr out" "path_programs w ''vtracer'' = Some prog"
    "prog (build_cmd w r out) (files w) = (cp, fs')" "argv = build_cmd w r out"
proof (cases "in_declared_domain r")
  case False
  with assms show ?thesis by (simp add: cog_predict_invalid)
next
  case True
  then have run: "cog_predict w r = predict w r" by (rule cog_predict_valid)
  show ?thesis
  proof (cases w r rule: predict_cases)
    case no_file
    with assms run show ?thesis by (simp add: predict_no_file)
  next
    case (undecodable b)
    with assms run show ?thesis by (simp add: predict_undecodable)
  next
    case (bad_settings b img e)
    with assms run show ?thesis by (simp add: predict_bad_settings)
  next
    case (no_temp b img e)
    with assms run show ?thesis by (simp add: predict_no_temp)
  next
    case (no_engine b img out)
    with assms run show ?thesis by (simp add: predict_no_engine)
  next
    case (engine b img out prog cp' fs')
    from assms run have "argv = build_cmd w r out \<and> cp = cp'"
      by (simp add: predict_engine_world [OF engine])
    with True engine show ?thesis by (intro that [of b img out prog fs']) simp_all
  qed
qed

lemma cog_predict_returned:
  assumes "fst (cog_predict w r) = Inr p"
  obtains b img prog cp fs' sout serr where
    "in_declared_domain r" "files w (image_path r) = Some b" "decode w b = Some img"
    "print_settings w r = Inr ()"
    "mktemp w ''.svg'' = Inr p" "path_programs w ''vtracer'' = Some prog"
    "prog (build_cmd w r p) (files w) = (cp, fs')"
    "stream_decode w (stdout cp) = Some sout" "stream_decode w (stderr cp) = Some serr"
    "returncode cp = 0" "fs' p \<noteq> None"
    "time_readings w (Suc (time_calls w)) \<noteq> time_readings w (time_calls w)"
proof (cases "in_declared_domain r")
  case False
  with assms show ?thesis by (simp add: cog_predict_invalid)
next
  case True
  then have run: "cog_predict w r = predict w r" by (rule cog_predict_valid)
  show ?thesis
  proof (cases w r rule: predict_cases)
    case no_file
    with assms run show ?thesis by (simp add: predict_no_file)
  next
    case (undecodable b)
    with assms run show ?thesis by (simp add: predict_undecodable)
  next
    case (bad_settings b img e)
    with assms run show ?thesis by (simp add: predict_bad_settings)
  next
    case (no_temp b img e)
    with assms run show ?thesis by (simp add: predict_no_temp)
  next
    case (no_engine b img out)
    with assms run show ?thesis by (simp add: predict_no_engine)
  next
    case (engine b img out prog cp fs')
    show ?thesis
    proof (cases "stream_decode w (stdout cp) = None \<or> stream_decode w (stderr cp) = None")
      case True
      with assms run show ?thesis
        by (simp add: predict_engine_undecoded [OF engine])
    next
      case False
      then obtain sout serr where
        dec: "stream_decode w (stdout cp) = Some sout" "stream_decode w (stderr cp) = Some serr"
        by auto
      show ?thesis
      proof (cases "returncode cp = 0")
        case False
        with assms run show ?thesis
          by (simp add: predict_engine_failed [OF engine dec] split: sum.splits)
      next
        case True
        with assms run have "fs' out \<noteq> None \<and>
            time_readings w (Suc (time_calls w)) \<noteq> time_readings w (time_calls w) \<and> p = out"
          by (simp add: predict_engine_succeeded [OF engine dec] split: if_splits)
        with \<open>in_declared_domain r\<close> engine dec True show ?thesis
          by (intro that [of b img prog cp fs' sout serr]) simp_all
      qed
    qed
  qed
qed

lemma build_cmd_pairs:
  "build_cmd w r out =
     ''vtracer'' # concat (map (\<lambda>(flag, v). [flag, v])
       [(''--input'', image_path r), (''--output'', out),
        (''--colormode'', color_mode r), (''--hierarchical'', hierarchical r),
        (''--filter_speckle'', str_int (filter_speckle r)),
        (''--color_precision'', str_int (color_precision r)),
        (''--layer_difference'', str_int (layer_difference r)),
        (''--corner_threshold'', str_int (corner_threshold r)),
        (''--length_threshold'', float_str w (segment_length r)),
        (''--splice_threshold'', str_int (splice_threshold r))])"
  by (simp add: build_cmd_def)

lemma build_cmd_output: "build_cmd w r out ! 3 = ''--output''" "build_cmd w r out ! 4 = out"
  by (simp_all add: build_cmd_def)

section \<open>The example worlds, evaluated\<close>

lemmas demo_defs = default_request_def demo_world_def cat_image_def svg_engine_def failing_engine_def
  empty_engine_def silent_engine_def demo_cmd_def other_world_def tracing_engine_def
  crlf_engine_def binary_engine_def bracket_engine_def ascii_decode_def demo_markup_error_def

lemmas run_defs = cog_predict_def validate_def predict_inputs_def Input_def ge_ok_def le_ok_def
  choices_ok_def predict_def time_time_def Image_open_def getsize_def mktemp_def path_join_def
  subprocess_run_def build_cmd_def compression_ratio_def py_truediv_def speed_def
  print_settings_def console_print_def on_engine_error_def translate_newlines_def replace_cr_def
  CR_def LF_def

lemma str_int_examples:
  "str_int 4 = ''4''" "str_int 6 = ''6''" "str_int 16 = ''16''" "str_int 60 = ''60''"
  "str_int 45 = ''45''" "str_int (- 120) = ''-120''"
  by (simp_all add: str_int_def digit_char_def)

lemma demo_svg_run:
  "fst (cog_predict (demo_world svg_engine 2) default_request) = Inr ''/tmp/tmpk3x9q2ab.svg''"
  "spawned (snd (cog_predict (demo_world svg_engine 2) default_request)) =
     [(demo_cmd, \<lparr>returncode = 0, stdout = [], stderr = []\<rparr>)]"
  "files (snd (cog_predict (demo_world svg_engine 2) default_request)) ''/tmp/tmpk3x9q2ab.svg'' =
     Some ''<svg/>''"
  by (simp_all add: run_defs demo_defs str_int_examples)

lemma demo_failing_run:
  "fst (cog_predict (demo_world failing_engine 2) default_request) =
     Inl (CalledProcessError 1 demo_cmd [] ''invalid color mode'')"
  "spawned (snd (cog_predict (demo_world failing_engine 2) default_request)) =
     [(demo_cmd, \<lparr>returncode = 1, stdout = [], stderr = ''invalid color mode''\<rparr>)]"
  by (simp_all add: run_defs demo_defs str_int_examples)

lemma demo_crlf_run:
  "fst (cog_predict (demo_world crlf_engine 2) default_request) =
     Inl (CalledProcessError 1 demo_cmd [] (''bad input'' @ [LF]))"
  "spawned (snd (cog_predict (demo_world crlf_engine 2) default_request)) =
     [(demo_cmd, \<lparr>returncode = 1, stdout = [], stderr = ''bad input'' @ [CR, LF]\<rparr>)]"
  by (simp_all add: run_defs demo_defs str_int_examples)

lemma demo_binary_run:
  "fst (cog_predict (demo_world binary_engine 2) default_request) = Inl UnicodeDecodeError"
  "spawned (snd (cog_predict (demo_world binary_engine 2) default_request)) =
     [(demo_cmd, \<lparr>returncode = 1, stdout = [], stderr = [CHR 0xFF]\<rparr>)]"
  by (simp_all add: run_defs demo_defs str_int_examples)

text \<open>
  The engine that quotes a path in brackets: printing its message raises inside the
  \<open>except\<close> clause, and that exception, not the \<open>CalledProcessError\<close>, leaves predict.
\<close>

lemma demo_bracket_run:
  "fst (cog_predict (demo_world bracket_engine 2) default_request) = Inl MarkupError"
  "spawned (snd (cog_predict (demo_world bracket_engine 2) default_request)) =
     [(demo_cmd, \<lparr>returncode = 1, stdout = [], stderr = ''cannot open [/in/cat.png]''\<rparr>)]"
  by (simp_all add: run_defs demo_defs str_int_examples)

lemma demo_empty_run:
  "fst (cog_predict (demo_world empty_engine 2) default_request) = Inr ''/tmp/tmpk3x9q2ab.svg''"
  "spawned (snd (cog_predict (demo_world empty_engine 2) default_request)) =
     [(demo_cmd, \<lparr>returncode = 0, stdout = [], stderr = []\<rparr>)]"
  "files (snd (cog_predict (demo_world empty_engine 2) default_request)) ''/tmp/tmpk3x9q2ab.svg'' =
     Some []"
  by (simp_all add: run_defs demo_defs str_int_examples)

lemma demo_silent_run:
  "fst (cog_predict (demo_world silent_engine 2) default_request) =
     Inl (FileNotFoundError ''/tmp/tmpk3x9q2ab.svg'')"
  "spawned (snd (cog_predict (demo_world silent_engine 2) default_request)) =
     [(demo_cmd, \<lparr>returncode = 0, stdout = [], stderr = []\<rparr>)]"
  "files (snd (cog_predict (demo_world silent_engine 2) default_request)) ''/tmp/tmpk3x9q2ab.svg'' =
     None"
  by (simp_all add: run_defs demo_defs str_int_examples)

lemma demo_frozen_clock_run:
  "fst (cog_predict (demo_world svg_engine 0) default_request) = Inl ZeroDivisionError"
  "spawned (snd (cog_predict (demo_world svg_engine 0) default_request)) =
     [(demo_cmd, \<lparr>returncode = 0, stdout = [], stderr = []\<rparr>)]"
  by (simp_all add: run_defs demo_defs str_int_examples)

lemma demo_world_facts:
  "spawned (demo_world e s) = []"
  "files (demo_world e s) ''/in/cat.png'' = Some ''PNG-cat''"
  "files (demo_world e s) ''/in/notes.txt'' = Some ''hello''"
  "decode (demo_world e s) ''PNG-cat'' = Some cat_image"
  "decode (demo_world e s) ''hello'' = None"
  "path_programs (demo_world e s) ''vtracer'' = Some e"
  "mktemp (demo_world e s) ''.svg'' = Inr ''/tmp/tmpk3x9q2ab.svg''"
  "in_declared_domain default_request"
  "image_path default_request = ''/in/cat.png''"
  "stream_decode (demo_world e s) = ascii_decode"
  by (simp_all add: demo_world_def mktemp_def path_join_def in_declared_domain_def default_request_def)

lemma demo_streams:
  "ascii_decode [] = Some []"
  "ascii_decode ''invalid color mode'' = Some ''invalid color mode''"
  "ascii_decode [CHR 0xFF] = None"
  "translate_newlines [] = []"
  "translate_newlines ''invalid color mode'' = ''invalid color mode''"
  "console_print (demo_world e s) (''[red]'' @ ''invalid color mode'' @ ''[/red]'') = Inr ()"
  by (simp_all add: ascii_decode_def translate_newlines_def replace_cr_def CR_def LF_def
      console_print_def demo_world_def demo_markup_error_def)

lemma demo_tracing_run:
  "fst (cog_predict (demo_world tracing_engine 2) default_request) = Inr ''/tmp/tmpk3x9q2ab.svg''"
  "fst (cog_predict (other_world tracing_engine) (default_request\<lparr>image_path := ''/data/copy.png''\<rparr>)) =
     Inr ''/var/tmp/tmpbbbbbbbb.svg''"
  by (simp_all add: run_defs demo_defs str_int_examples)

section \<open>The validation gate\<close>

text \<open>
  C1: whenever one of the parameters is outside its declared bounds or enumeration, the
  operation ends with a \<open>ValidationError\<close> naming at least one parameter, and the world
  is left as it was: no process has been started. Hence whenever a process is started,
  the request lies within the declared domain.
\<close>

theorem validation_gate:
  "(\<not> in_declared_domain r \<longrightarrow>
      (\<exists>names. names \<noteq> [] \<and> fst (cog_predict w r) = Inl (ValidationError names)) \<and>
      snd (cog_predict w r) = w \<and> spawned (snd (cog_predict w r)) = spawned w) \<and>
   (spawned (snd (cog_predict w r)) \<noteq> spawned w \<longrightarrow> in_declared_domain r)"
proof (cases "in_declared_domain r")
  case True
  then show ?thesis by simp
next
  case False
  have "violations (predict_inputs r) \<noteq> []"
    using False by (rule validate_Inl(2))
  with False show ?thesis
    by (simp add: cog_predict_invalid)
qed

text \<open>The scenario of the specification: \<open>filter_speckle = 101\<close>.\<close>

theorem validation_gate_witness:
  "\<not> in_declared_domain (default_request\<lparr>filter_speckle := 101\<rparr>) \<and>
   (\<exists>names. names \<noteq> [] \<and>
      fst (cog_predict (demo_world svg_engine 2) (default_request\<lparr>filter_speckle := 101\<rparr>)) =
        Inl (ValidationError names)) \<and>
   spawned (snd (cog_predict (demo_world svg_engine 2) (default_request\<lparr>filter_speckle := 101\<rparr>))) = []"
proof -
  have out: "\<not> in_declared_domain (default_request\<lparr>filter_speckle := 101\<rparr>)"
    by (simp add: in_declared_domain_def default_request_def)
  have log: "spawned (demo_world svg_engine 2) = []"
    by (simp add: demo_world_def)
  note gate = validation_gate [of "default_request\<lparr>filter_speckle := 101\<rparr>" "demo_world svg_engine 2"]
  from gate out have rejected: "\<exists>names. names \<noteq> [] \<and>
      fst (cog_predict (demo_world svg_engine 2) (default_request\<lparr>filter_speckle := 101\<rparr>)) =
        Inl (ValidationError names)"
    by blast
  from gate out have "spawned (snd (cog_predict (demo_world svg_engine 2)
      (default_request\<lparr>filter_speckle := 101\<rparr>))) = spawned (demo_world svg_engine 2)"
    by blast
  then have "spawned (snd (cog_predict (demo_world svg_engine 2)
      (default_request\<lparr>filter_speckle := 101\<rparr>))) = []"
    by (simp only: log)
  with out rejected show ?thesis
    by (intro conjI)
qed

lemma rejected_by_declaration:
  "rejected_naming ''color_mode'' r \<longleftrightarrow>
     \<not> input_ok (Input (Some [''color'', ''binary'']) None None) (StrV (color_mode r))"
  "rejected_naming ''hierarchical'' r \<longleftrightarrow>
     \<not> input_ok (Input (Some [''stacked'', ''cutout'']) None None) (StrV (hierarchical r))"
  "rejected_naming ''filter_speckle'' r \<longleftrightarrow>
     \<not> input_ok (Input None (Some 0) (Some 100)) (IntV (filter_speckle r))"
  "rejected_naming ''color_precision'' r \<longleftrightarrow>
     \<not> input_ok (Input None (Some 1) (Some 8)) (IntV (color_precision r))"
  "rejected_naming ''layer_difference'' r \<longleftrightarrow>
     \<not> input_ok (Input None (Some 0) (Some 100)) (IntV (layer_difference r))"
  "rejected_naming ''corner_threshold'' r \<longleftrightarrow>
     \<not> input_ok (Input None (Some 0) (Some 180)) (IntV (corner_threshold r))"
  "rejected_naming ''segment_length'' r \<longleftrightarrow>
     \<not> input_ok (Input None (Some (7 / 2)) (Some 50)) (FloatV (segment_length r))"
  "rejected_naming ''splice_threshold'' r \<longleftrightarrow>
     \<not> input_ok (Input None (Some 0) (Some 180)) (IntV (splice_threshold r))"
  by (simp_all add: rejected_naming_iff violations_set predict_inputs_def del: input_ok.simps)

lemma rejected_naming_fields:
  "rejected_naming ''color_mode'' r \<longleftrightarrow> \<not> (color_mode r = ''color'' \<or> color_mode r = ''binary'')"
  "rejected_naming ''hierarchical'' r \<longleftrightarrow> \<not> (hierarchical r = ''stacked'' \<or> hierarchical r = ''cutout'')"
  "rejected_naming ''filter_speckle'' r \<longleftrightarrow> \<not> (0 \<le> filter_speckle r \<and> filter_speckle r \<le> 100)"
  "rejected_naming ''color_precision'' r \<longleftrightarrow> \<not> (1 \<le> color_precision r \<and> color_precision r \<le> 8)"
  "rejected_naming ''layer_difference'' r \<longleftrightarrow> \<not> (0 \<le> layer_difference r \<and> layer_difference r \<le> 100)"
  "rejected_naming ''corner_threshold'' r \<longleftrightarrow> \<not> (0 \<le> corner_threshold r \<and> corner_threshold r \<le> 180)"
  "rejected_naming ''segment_length'' r \<longleftrightarrow> \<not> (7 / 2 \<le> segment_length r \<and> segment_length r \<le> 50)"
  "rejected_naming ''splice_threshold'' r \<longleftrightarrow> \<not> (0 \<le> splice_threshold r \<and> splice_threshold r \<le> 180)"
  unfolding rejected_by_declaration
  by (simp_all add: Input_def ge_ok_def le_ok_def choices_ok_def)

text \<open>
  C2: with the other parameters in their domain, each numeric parameter is accepted at
  both of its bounds, and every declared value of the two enumerations is accepted; one
  unit below the lower or above the upper bound the request is rejected with a
  \<open>ValidationError\<close> that names the parameter, and so is every string outside an
  enumeration.
\<close>

theorem bounds_and_choices:
  "(in_declared_domain r \<longrightarrow>
      validate (r\<lparr>filter_speckle := 0\<rparr>) = Inr () \<and> validate (r\<lparr>filter_speckle := 100\<rparr>) = Inr () \<and>
      validate (r\<lparr>color_precision := 1\<rparr>) = Inr () \<and> validate (r\<lparr>color_precision := 8\<rparr>) = Inr () \<and>
      validate (r\<lparr>layer_difference := 0\<rparr>) = Inr () \<and> validate (r\<lparr>layer_difference := 100\<rparr>) = Inr () \<and>
      validate (r\<lparr>corner_threshold := 0\<rparr>) = Inr () \<and> validate (r\<lparr>corner_threshold := 180\<rparr>) = Inr () \<and>
      validate (r\<lparr>segment_length := 7 / 2\<rparr>) = Inr () \<and> validate (r\<lparr>segment_length := 50\<rparr>) = Inr () \<and>
      validate (r\<lparr>splice_threshold := 0\<rparr>) = Inr () \<and> validate (r\<lparr>splice_threshold := 180\<rparr>) = Inr () \<and>
      validate (r\<lparr>color_mode := ''color''\<rparr>) = Inr () \<and> validate (r\<lparr>color_mode := ''binary''\<rparr>) = Inr () \<and>
      validate (r\<lparr>hierarchical := ''stacked''\<rparr>) = Inr () \<and>
      validate (r\<lparr>hierarchical := ''cutout''\<rparr>) = Inr ()) \<and>
   rejected_naming ''filter_speckle'' (r\<lparr>filter_speckle := - 1\<rparr>) \<and>
   rejected_naming ''filter_speckle'' (r\<lparr>filter_speckle := 101\<rparr>) \<and>
   rejected_naming ''color_precision'' (r\<lparr>color_precision := 0\<rparr>) \<and>
   rejected_naming ''color_precision'' (r\<lparr>color_precision := 9\<rparr>) \<and>
   rejected_naming ''layer_difference'' (r\<lparr>layer_difference := - 1\<rparr>) \<and>
   rejected_naming ''layer_difference'' (r\<lparr>layer_difference := 101\<rparr>) \<and>
   rejected_naming ''corner_threshold'' (r\<lparr>corner_threshold := - 1\<rparr>) \<and>
   rejected_naming ''corner_threshold'' (r\<lparr>corner_threshold := 181\<rparr>) \<and>
   rejected_naming ''segment_length'' (r\<lparr>segment_length := 5 / 2\<rparr>) \<and>
   rejected_naming ''segment_length'' (r\<lparr>segment_length := 51\<rparr>) \<and>
   rejected_naming ''splice_threshold'' (r\<lparr>splice_threshold := - 1\<rparr>) \<and>
   rejected_naming ''splice_threshold'' (r\<lparr>splice_threshold := 181\<rparr>) \<and>
   (\<forall>s. s \<noteq> ''color'' \<and> s \<noteq> ''binary'' \<longrightarrow> rejected_naming ''color_mode'' (r\<lparr>color_mode := s\<rparr>)) \<and>
   (\<forall>s. s \<noteq> ''stacked'' \<and> s \<noteq> ''cutout'' \<longrightarrow>
      rejected_naming ''hierarchical'' (r\<lparr>hierarchical := s\<rparr>))"
proof -
  have accepted: "in_declared_domain r' \<Longrightarrow> validate r' = Inr ()" for r'
    by (simp only: validate_Inr_iff)
  have at_bounds:
    "validate (r\<lparr>filter_speckle := 0\<rparr>) = Inr ()" "validate (r\<lparr>filter_speckle := 100\<rparr>) = Inr ()"
    "validate (r\<lparr>color_precision := 1\<rparr>) = Inr ()" "validate (r\<lparr>color_precision := 8\<rparr>) = Inr ()"
    "validate (r\<lparr>layer_difference := 0\<rparr>) = Inr ()" "validate (r\<lparr>layer_difference := 100\<rparr>) = Inr ()"
    "validate (r\<lparr>corner_threshold := 0\<rparr>) = Inr ()" "validate (r\<lparr>corner_threshold := 180\<rparr>) = Inr ()"
    "validate (r\<lparr>segment_length := 7 / 2\<rparr>) = Inr ()" "validate (r\<lparr>segment_length := 50\<rparr>) = Inr ()"
    "validate (r\<lparr>splice_threshold := 0\<rparr>) = Inr ()" "validate (r\<lparr>splice_threshold := 180\<rparr>) = Inr ()"
    "validate (r\<lparr>color_mode := ''color''\<rparr>) = Inr ()" "validate (r\<lparr>color_mode := ''binary''\<rparr>) = Inr ()"
    "validate (r\<lparr>hierarchical := ''stacked''\<rparr>) = Inr ()"
    "validate (r\<lparr>hierarchical := ''cutout''\<rparr>) = Inr ()"
    if "in_declared_domain r"
    using that by (simp_all add: accepted in_declared_domain_def)
  have outside:
    "rejected_naming ''filter_speckle'' (r\<lparr>filter_speckle := - 1\<rparr>)"
    "rejected_naming ''filter_speckle'' (r\<lparr>filter_speckle := 101\<rparr>)"
    "rejected_naming ''color_precision'' (r\<lparr>color_precision := 0\<rparr>)"
    "rejected_naming ''color_precision'' (r\<lparr>color_precision := 9\<rparr>)"
    "rejected_naming ''layer_difference'' (r\<lparr>layer_difference := - 1\<rparr>)"
    "rejected_naming ''layer_difference'' (r\<lparr>layer_difference := 101\<rparr>)"
    "rejected_naming ''corner_threshold'' (r\<lparr>corner_threshold := - 1\<rparr>)"
    "rejected_naming ''corner_threshold'' (r\<lparr>corner_threshold := 181\<rparr>)"
    "rejected_naming ''segment_length'' (r\<lparr>segment_length := 5 / 2\<rparr>)"
    "rejected_naming ''segment_length'' (r\<lparr>segment_length := 51\<rparr>)"
    "rejected_naming ''splice_threshold'' (r\<lparr>splice_threshold := - 1\<rparr>)"
    "rejected_naming ''splice_threshold'' (r\<lparr>splice_threshold := 181\<rparr>)"
    by (simp_all add: rejected_naming_fields)
  have enums:
    "\<forall>s. s \<noteq> ''color'' \<and> s \<noteq> ''binary'' \<longrightarrow> rejected_naming ''color_mode'' (r\<lparr>color_mode := s\<rparr>)"
    "\<forall>s. s \<noteq> ''stacked'' \<and> s \<noteq> ''cutout'' \<longrightarrow>
      rejected_naming ''hierarchical'' (r\<lparr>hierarchical := s\<rparr>)"
    by (simp_all add: rejected_naming_fields)
  from at_bounds outside enums show ?thesis
    by (intro conjI impI)
qed

text \<open>On the default request.\<close>

theorem bounds_and_choices_witness:
  "in_declared_domain default_request \<and>
   validate (default_request\<lparr>filter_speckle := 100\<rparr>) = Inr () \<and>
   validate (default_request\<lparr>segment_length := 7 / 2\<rparr>) = Inr () \<and>
   rejected_naming ''filter_speckle'' (default_request\<lparr>filter_speckle := 101\<rparr>) \<and>
   rejected_naming ''color_mode'' (default_request\<lparr>color_mode := ''grey''\<rparr>)"
proof -
  have dom: "in_declared_domain default_request"
    by (simp add: in_declared_domain_def default_request_def)
  have grey: "''grey'' \<noteq> ''color'' \<and> ''grey'' \<noteq> ''binary''"
    by simp
  note inst = bounds_and_choices [of default_request]
  from inst dom have "validate (default_request\<lparr>filter_speckle := 100\<rparr>) = Inr ()"
    by blast
  moreover from inst dom have "validate (default_request\<lparr>segment_length := 7 / 2\<rparr>) = Inr ()"
    by blast
  moreover from inst have "rejected_naming ''filter_speckle'' (default_request\<lparr>filter_speckle := 101\<rparr>)"
    by blast
  moreover have "rejected_naming ''color_mode'' (default_request\<lparr>color_mode := ''grey''\<rparr>)"
  proof -
    from inst have "\<forall>s. s \<noteq> ''color'' \<and> s \<noteq> ''binary'' \<longrightarrow>
        rejected_naming ''color_mode'' (default_request\<lparr>color_mode := s\<rparr>)"
      by blast
    then have "''grey'' \<noteq> ''color'' \<and> ''grey'' \<noteq> ''binary'' \<longrightarrow>
        rejected_naming ''color_mode'' (default_request\<lparr>color_mode := ''grey''\<rparr>)"
      by (rule spec)
    then show ?thesis
      using grey by (rule mp)
  qed
  ultimately show ?thesis
    using dom by (intro conjI)
qed

section \<open>The invocation of the engine\<close>

text \<open>
  C3: for a request within the declared domain that reaches the invoker (the image
  opens, a temporary name is free, \<open>vtracer\<close> is installed), exactly one process is
  started. Its argument vector is a list: the binary name, then one flag and one value
  for each of input path, output path, colour mode, hierarchical mode, speckle filter,
  colour precision, layer difference, corner threshold, length threshold and splice
  threshold, the numbers converted to text. The program receives this very list, each
  value one element of it whatever characters it holds.
\<close>

theorem engine_invocation:
  assumes "in_declared_domain r"
    and "files w (image_path r) = Some b" and "decode w b = Some img"
    and "mktemp w ''.svg'' = Inr out"
    and "path_programs w ''vtracer'' = Some prog"
  shows "\<exists>argv cp.
     argv = ''vtracer'' # concat (map (\<lambda>(flag, v). [flag, v])
       [(''--input'', image_path r), (''--output'', out),
        (''--colormode'', color_mode r), (''--hierarchical'', hierarchical r),
        (''--filter_speckle'', str_int (filter_speckle r)),
        (''--color_precision'', str_int (color_precision r)),
        (''--layer_difference'', str_int (layer_difference r)),
        (''--corner_threshold'', str_int (corner_threshold r)),
        (''--length_threshold'', float_str w (segment_length r)),
        (''--splice_threshold'', str_int (splice_threshold r))]) \<and>
     spawned (snd (cog_predict w r)) = spawned w @ [(argv, cp)] \<and>
     prog argv (files w) = (cp, files (snd (cog_predict w r)))"
proof -
  obtain cp fs' where ran: "prog (build_cmd w r out) (files w) = (cp, fs')"
    by (cases "prog (build_cmd w r out) (files w)")
  have "cog_predict w r = predict w r"
    using assms(1) by (rule cog_predict_valid)
  moreover have printable: "print_settings w r = Inr ()"
    using assms(1) by (rule print_settings_in_domain)
  ultimately have "spawned (snd (cog_predict w r)) = spawned w @ [(build_cmd w r out, cp)]"
    and "files (snd (cog_predict w r)) = fs'"
    by (simp_all add: predict_engine_world [OF assms(2,3) printable assms(4,5) ran])
  with ran have "spawned (snd (cog_predict w r)) = spawned w @ [(build_cmd w r out, cp)] \<and>
      prog (build_cmd w r out) (files w) = (cp, files (snd (cog_predict w r)))"
    by simp
  then show ?thesis
    unfolding build_cmd_pairs by blast
qed

text \<open>On the default request, with an engine that writes an SVG file.\<close>

theorem engine_invocation_witness:
  "in_declared_domain default_request \<and>
   files (demo_world svg_engine 2) (image_path default_request) = Some ''PNG-cat'' \<and>
   decode (demo_world svg_engine 2) ''PNG-cat'' = Some cat_image \<and>
   mktemp (demo_world svg_engine 2) ''.svg'' = Inr ''/tmp/tmpk3x9q2ab.svg'' \<and>
   path_programs (demo_world svg_engine 2) ''vtracer'' = Some svg_engine \<and>
   (\<exists>cp. spawned (snd (cog_predict (demo_world svg_engine 2) default_request)) =
      spawned (demo_world svg_engine 2) @ [(demo_cmd, cp)])"
proof -
  have f: "files (demo_world svg_engine 2) (image_path default_request) = Some ''PNG-cat''"
    by (simp only: demo_world_facts)
  note inst = engine_invocation [OF demo_world_facts(8) f demo_world_facts(4)
      demo_world_facts(7) demo_world_facts(6)]
  have "''vtracer'' # concat (map (\<lambda>(flag, v). [flag, v])
       [(''--input'', image_path default_request), (''--output'', ''/tmp/tmpk3x9q2ab.svg''),
        (''--colormode'', color_mode default_request),
        (''--hierarchical'', hierarchical default_request),
        (''--filter_speckle'', str_int (filter_speckle default_request)),
        (''--color_precision'', str_int (color_precision default_request)),
        (''--layer_difference'', str_int (layer_difference default_request)),
        (''--corner_threshold'', str_int (corner_threshold default_request)),
        (''--length_threshold'',
           float_str (demo_world svg_engine 2) (segment_length default_request)),
        (''--splice_threshold'', str_int (splice_threshold default_request))]) = demo_cmd"
    by (simp add: default_request_def demo_world_def demo_cmd_def str_int_examples)
  with inst have "\<exists>cp. spawned (snd (cog_predict (demo_world svg_engine 2) default_request)) =
      spawned (demo_world svg_engine 2) @ [(demo_cmd, cp)]"
    by metis
  with f demo_world_facts(8) demo_world_facts(4) demo_world_facts(7) demo_world_facts(6)
  show ?thesis
    by (intro conjI)
qed

text \<open>
  C4, as the specification states it, fails. The streams are captured with
  \<open>text=True\<close>: an engine that writes a byte that is not text ends the operation with
  \<open>UnicodeDecodeError\<close>, and an engine whose message ends in a carriage return and a
  line feed gets it back with a line feed alone.
\<close>

theorem engine_failure_not_verbatim:
  "spawned (snd (cog_predict (demo_world binary_engine 2) default_request)) =
     [(demo_cmd, \<lparr>returncode = 1, stdout = [], stderr = [CHR 0xFF]\<rparr>)] \<and>
   fst (cog_predict (demo_world binary_engine 2) default_request) = Inl UnicodeDecodeError \<and>
   spawned (snd (cog_predict (demo_world crlf_engine 2) default_request)) =
     [(demo_cmd, \<lparr>returncode = 1, stdout = [], stderr = ''bad input'' @ [CR, LF]\<rparr>)] \<and>
   fst (cog_predict (demo_world crlf_engine 2) default_request) =
     Inl (CalledProcessError 1 demo_cmd [] (''bad input'' @ [LF])) \<and>
   ''bad input'' @ [LF] \<noteq> ''bad input'' @ [CR, LF]"
proof -
  have "''bad input'' @ [LF] \<noteq> ''bad input'' @ [CR, LF]"
    by (simp add: CR_def LF_def)
  with demo_binary_run demo_crlf_run show ?thesis
    by (intro conjI)
qed

text \<open>
  C4, amended: whenever the engine process ends with a non-zero status, no path is
  returned. If one of its captured streams does not decode as text, the operation ends
  with \<open>UnicodeDecodeError\<close>. If both decode and the console can print the decoded
  error stream, the operation ends with the \<open>CalledProcessError\<close> of that process,
  which carries the streams as decoded, their newlines translated.
\<close>

theorem engine_failure:
  assumes "spawned (snd (cog_predict w r)) = spawned w @ [(argv, cp)]"
    and "returncode cp \<noteq> 0"
  shows "(\<forall>p. fst (cog_predict w r) \<noteq> Inr p) \<and>
    (stream_decode w (stdout cp) = None \<or> stream_decode w (stderr cp) = None \<longrightarrow>
       fst (cog_predict w r) = Inl UnicodeDecodeError) \<and>
    (\<forall>sout serr.
       stream_decode w (stdout cp) = Some sout \<and> stream_decode w (stderr cp) = Some serr \<and>
       console_print w (''[red]'' @ translate_newlines serr @ ''[/red]'') = Inr () \<longrightarrow>
       fst (cog_predict w r) =
         Inl (CalledProcessError (returncode cp) argv
           (translate_newlines sout) (translate_newlines serr)))"
proof -
  from assms(1) obtain b img out prog fs' where
    dom: "in_declared_domain r" and
    reach: "files w (image_path r) = Some b" "decode w b = Some img"
      "print_settings w r = Inr ()"
      "mktemp w ''.svg'' = Inr out" "path_programs w ''vtracer'' = Some prog"
      "prog (build_cmd w r out) (files w) = (cp, fs')" and
    argv: "argv = build_cmd w r out"
    by (rule cog_predict_started)
  have run: "cog_predict w r = predict w r"
    using dom by (rule cog_predict_valid)
  have undecoded: "fst (cog_predict w r) = Inl UnicodeDecodeError"
    if "stream_decode w (stdout cp) = None \<or> stream_decode w (stderr cp) = None"
    unfolding run using reach that by (rule predict_engine_undecoded)
  have decoded: "fst (cog_predict w r) =
      (case console_print w (''[red]'' @ translate_newlines serr @ ''[/red]'') of
         Inl e \<Rightarrow> Inl e
       | Inr _ \<Rightarrow> Inl (CalledProcessError (returncode cp) argv
           (translate_newlines sout) (translate_newlines serr)))"
    if "stream_decode w (stdout cp) = Some sout" "stream_decode w (stderr cp) = Some serr"
    for sout serr
    unfolding run argv using reach that assms(2) by (rule predict_engine_failed)
  have no_path: "fst (cog_predict w r) \<noteq> Inr p" for p
  proof (cases "stream_decode w (stdout cp) = None \<or> stream_decode w (stderr cp) = None")
    case True
    then show ?thesis by (simp add: undecoded)
  next
    case False
    then obtain sout serr where
      "stream_decode w (stdout cp) = Some sout" "stream_decode w (stderr cp) = Some serr"
      by auto
    then show ?thesis
      by (simp add: decoded split: sum.splits)
  qed
  have carried: "fst (cog_predict w r) =
      Inl (CalledProcessError (returncode cp) argv
        (translate_newlines sout) (translate_newlines serr))"
    if "stream_decode w (stdout cp) = Some sout \<and> stream_decode w (stderr cp) = Some serr \<and>
      console_print w (''[red]'' @ translate_newlines serr @ ''[/red]'') = Inr ()"
    for sout serr
    using that by (simp add: decoded)
  from no_path undecoded carried show ?thesis
    by (intro conjI allI impI)
qed

text \<open>
  The scenario of the specification, status 1 and \<open>invalid color mode\<close> on the error
  stream; and the engine whose error stream is not text.
\<close>

theorem engine_failure_witness:
  "spawned (snd (cog_predict (demo_world failing_engine 2) default_request)) =
     spawned (demo_world failing_engine 2) @
       [(demo_cmd, \<lparr>returncode = 1, stdout = [], stderr = ''invalid color mode''\<rparr>)] \<and>
   returncode \<lparr>returncode = 1, stdout = [], stderr = ''invalid color mode''\<rparr> \<noteq> 0 \<and>
   stream_decode (demo_world failing_engine 2) [] = Some [] \<and>
   stream_decode (demo_world failing_engine 2) ''invalid color mode'' = Some ''invalid color mode'' \<and>
   console_print (demo_world failing_engine 2) (''[red]'' @ ''invalid color mode'' @ ''[/red]'') =
     Inr () \<and>
   fst (cog_predict (demo_world failing_engine 2) default_request) =
     Inl (CalledProcessError 1 demo_cmd [] ''invalid color mode'')"
proof -
  let ?cp = "\<lparr>returncode = 1, stdout = [], stderr = ''invalid color mode''\<rparr>"
  have log: "spawned (snd (cog_predict (demo_world failing_engine 2) default_request)) =
     spawned (demo_world failing_engine 2) @ [(demo_cmd, ?cp)]"
    by (simp only: demo_failing_run demo_world_facts append_Nil)
  have rc: "returncode ?cp \<noteq> 0"
    by simp
  have out: "stream_decode (demo_world failing_engine 2) [] = Some []"
    and err: "stream_decode (demo_world failing_engine 2) ''invalid color mode'' =
      Some ''invalid color mode''"
    by (simp_all only: demo_world_facts demo_streams)
  have shown: "console_print (demo_world failing_engine 2)
      (''[red]'' @ ''invalid color mode'' @ ''[/red]'') = Inr ()"
    by (rule demo_streams)
  have "stream_decode (demo_world failing_engine 2) (stdout ?cp) = Some [] \<and>
    stream_decode (demo_world failing_engine 2) (stderr ?cp) = Some ''invalid color mode'' \<and>
    console_print (demo_world failing_engine 2)
      (''[red]'' @ translate_newlines ''invalid color mode'' @ ''[/red]'') = Inr ()"
    using out err shown by (simp add: demo_streams)
  with engine_failure [OF log rc]
  have "fst (cog_predict (demo_world failing_engine 2) default_request) =
     Inl (CalledProcessError (returncode ?cp) demo_cmd
       (translate_newlines []) (translate_newlines ''invalid color mode''))"
    by blast
  then have "fst (cog_predict (demo_world failing_engine 2) default_request) =
     Inl (CalledProcessError 1 demo_cmd [] ''invalid color mode'')"
    by (simp add: demo_streams)
  with log rc out err shown show ?thesis
    by (intro conjI)
qed

section \<open>Metrics\<close>

text \<open>
  C5: for all input and output sizes the compression ratio is
  \<open>(1 - output_size / input_size) * 100\<close>, and it is 0 when the input size is 0; no
  division error is raised (the result is never an exception). In particular
  \<open>compression_ratio(1000, 500) = 50\<close> and \<open>compression_ratio(1000, 1500) = -50\<close>.
\<close>

theorem compression_ratio_spec:
  "compression_ratio input_size output_size =
     Inr (if input_size = 0 then 0
          else (1 - of_nat output_size / of_nat input_size) * 100) \<and>
   compression_ratio 0 output_size = Inr 0 \<and>
   compression_ratio 1000 500 = Inr 50 \<and>
   compression_ratio 1000 1500 = Inr (- 50)"
  by (simp add: compression_ratio_def py_truediv_def)

section \<open>After the engine has run\<close>

text \<open>
  C6: the throughput of line 173 divides by the elapsed time without a guard. With a
  clock that reads the same value twice, the division raises \<open>ZeroDivisionError\<close> and
  the operation fails although the engine succeeded; throughput is not reported as
  unavailable.
\<close>

theorem zero_elapsed_raises:
  "speed img 0 = Inl ZeroDivisionError \<and>
   spawned (snd (cog_predict (demo_world svg_engine 0) default_request)) =
     [(demo_cmd, \<lparr>returncode = 0, stdout = [], stderr = []\<rparr>)] \<and>
   fst (cog_predict (demo_world svg_engine 0) default_request) = Inl ZeroDivisionError"
proof -
  have "speed img 0 = Inl ZeroDivisionError"
    by (simp add: speed_def py_truediv_def)
  then show ?thesis
    by (simp only: demo_frozen_clock_run simp_thms)
qed

text \<open>
  C7, as the specification states it, fails: an engine that succeeds and leaves an empty
  file at the destination gets its path returned.
\<close>

theorem empty_output_returned:
  "spawned (snd (cog_predict (demo_world empty_engine 2) default_request)) =
     [(demo_cmd, \<lparr>returncode = 0, stdout = [], stderr = []\<rparr>)] \<and>
   fst (cog_predict (demo_world empty_engine 2) default_request) = Inr ''/tmp/tmpk3x9q2ab.svg'' \<and>
   files (snd (cog_predict (demo_world empty_engine 2) default_request)) ''/tmp/tmpk3x9q2ab.svg'' =
     Some []"
  by (simp only: demo_empty_run simp_thms)

text \<open>
  C7, amended: whenever the engine process ends with status 0, a path is returned only
  if it is the destination path given to the engine and a file exists there (its size
  has been read; it may be empty). If no file exists there, the operation fails: with
  the \<open>FileNotFoundError\<close> of the size query, when the captured streams of the engine
  decode as text.
\<close>

theorem output_exists_when_returned:
  assumes "spawned (snd (cog_predict w r)) = spawned w @ [(argv, cp)]"
    and "returncode cp = 0"
  shows "(\<forall>p. fst (cog_predict w r) = Inr p \<longrightarrow>
            p = argv ! 4 \<and> files (snd (cog_predict w r)) p \<noteq> None) \<and>
         (files (snd (cog_predict w r)) (argv ! 4) = None \<longrightarrow>
            (\<exists>e. fst (cog_predict w r) = Inl e) \<and>
            (stream_decode w (stdout cp) \<noteq> None \<and> stream_decode w (stderr cp) \<noteq> None \<longrightarrow>
               fst (cog_predict w r) = Inl (FileNotFoundError (argv ! 4))))"
proof -
  from assms(1) obtain b img out prog fs' where
    dom: "in_declared_domain r" and
    reach: "files w (image_path r) = Some b" "decode w b = Some img"
      "print_settings w r = Inr ()"
      "mktemp w ''.svg'' = Inr out" "path_programs w ''vtracer'' = Some prog"
      "prog (build_cmd w r out) (files w) = (cp, fs')" and
    argv: "argv = build_cmd w r out"
    by (rule cog_predict_started)
  have run: "cog_predict w r = predict w r"
    using dom by (rule cog_predict_valid)
  have dest: "argv ! 4 = out"
    by (simp only: argv build_cmd_output)
  have after: "files (snd (cog_predict w r)) = fs'"
    unfolding run using reach by (rule predict_engine_world)
  show ?thesis
  proof (cases "stream_decode w (stdout cp) = None \<or> stream_decode w (stderr cp) = None")
    case True
    then have "fst (cog_predict w r) = Inl UnicodeDecodeError"
      unfolding run using reach by (intro predict_engine_undecoded)
    with True show ?thesis by auto
  next
    case False
    then obtain sout serr where
      dec: "stream_decode w (stdout cp) = Some sout" "stream_decode w (stderr cp) = Some serr"
      by auto
    have "fst (cog_predict w r) =
      (if fs' out = None then Inl (FileNotFoundError out)
       else if time_readings w (Suc (time_calls w)) = time_readings w (time_calls w)
         then Inl ZeroDivisionError
       else Inr out)"
      unfolding run using reach dec assms(2) by (rule predict_engine_succeeded)
    then show ?thesis
      unfolding dest after by (simp split: if_splits)
  qed
qed

text \<open>With an engine that writes its file, and with one that reports success and writes none.\<close>

theorem output_exists_when_returned_witness:
  "spawned (snd (cog_predict (demo_world svg_engine 2) default_request)) =
     spawned (demo_world svg_engine 2) @
       [(demo_cmd, \<lparr>returncode = 0, stdout = [], stderr = []\<rparr>)] \<and>
   returncode \<lparr>returncode = 0, stdout = [], stderr = []\<rparr> = 0 \<and>
   fst (cog_predict (demo_world svg_engine 2) default_request) = Inr (demo_cmd ! 4) \<and>
   files (snd (cog_predict (demo_world svg_engine 2) default_request)) (demo_cmd ! 4) \<noteq> None \<and>
   files (snd (cog_predict (demo_world silent_engine 2) default_request)) (demo_cmd ! 4) = None \<and>
   stream_decode (demo_world silent_engine 2) [] \<noteq> None \<and>
   fst (cog_predict (demo_world silent_engine 2) default_request) =
     Inl (FileNotFoundError (demo_cmd ! 4))"
proof -
  let ?cp = "\<lparr>returncode = 0, stdout = [], stderr = []\<rparr>"
  have dest: "demo_cmd ! 4 = ''/tmp/tmpk3x9q2ab.svg''"
    by (simp add: demo_cmd_def)
  have rc: "returncode ?cp = 0"
    by simp
  have log: "spawned (snd (cog_predict (demo_world svg_engine 2) default_request)) =
     spawned (demo_world svg_engine 2) @ [(demo_cmd, ?cp)]"
    by (simp only: demo_svg_run demo_world_facts append_Nil)
  have log': "spawned (snd (cog_predict (demo_world silent_engine 2) default_request)) =
     spawned (demo_world silent_engine 2) @ [(demo_cmd, ?cp)]"
    by (simp only: demo_silent_run demo_world_facts append_Nil)
  have ret: "fst (cog_predict (demo_world svg_engine 2) default_request) = Inr (demo_cmd ! 4)"
    by (simp only: demo_svg_run dest)
  have missing: "files (snd (cog_predict (demo_world silent_engine 2) default_request))
      (demo_cmd ! 4) = None"
    by (simp only: demo_silent_run dest)
  have decodes: "stream_decode (demo_world silent_engine 2) [] \<noteq> None"
    by (simp add: demo_world_facts demo_streams)
  then have streams: "stream_decode (demo_world silent_engine 2) (stdout ?cp) \<noteq> None \<and>
      stream_decode (demo_world silent_engine 2) (stderr ?cp) \<noteq> None"
    by simp
  from output_exists_when_returned [OF log rc] ret
  have there: "files (snd (cog_predict (demo_world svg_engine 2) default_request))
      (demo_cmd ! 4) \<noteq> None"
    by blast
  from output_exists_when_returned [OF log' rc] missing streams
  have "fst (cog_predict (demo_world silent_engine 2) default_request) =
     Inl (FileNotFoundError (demo_cmd ! 4))"
    by blast
  with log rc ret there missing decodes show ?thesis
    by (intro conjI)
qed

section \<open>An input that is not an image\<close>

text \<open>
  C8: when the content of the input file is not an image, \<open>predict\<close> ends with the
  \<open>UnidentifiedImageError\<close> of \<open>Image.open\<close> and starts no process. The same holds of
  the operation as served: it fails and starts no process, and for a request within the
  declared domain the error is that \<open>UnidentifiedImageError\<close>.
\<close>

theorem undecodable_image_stops:
  assumes "files w (image_path r) = Some b" and "decode w b = None"
  shows "fst (predict w r) = Inl (UnidentifiedImageError (image_path r)) \<and>
    spawned (snd (predict w r)) = spawned w \<and>
    (\<exists>e. fst (cog_predict w r) = Inl e) \<and>
    spawned (snd (cog_predict w r)) = spawned w \<and>
    (in_declared_domain r \<longrightarrow>
       fst (cog_predict w r) = Inl (UnidentifiedImageError (image_path r)))"
proof (cases "in_declared_domain r")
  case True
  then have "cog_predict w r = predict w r" by (rule cog_predict_valid)
  then show ?thesis
    by (simp add: predict_undecodable [OF assms])
next
  case False
  then show ?thesis
    by (simp add: cog_predict_invalid predict_undecodable [OF assms])
qed

text \<open>On a text file in place of the image.\<close>

theorem undecodable_image_stops_witness:
  "files (demo_world svg_engine 2) (image_path (default_request\<lparr>image_path := ''/in/notes.txt''\<rparr>)) =
     Some ''hello'' \<and>
   decode (demo_world svg_engine 2) ''hello'' = None \<and>
   in_declared_domain (default_request\<lparr>image_path := ''/in/notes.txt''\<rparr>) \<and>
   fst (cog_predict (demo_world svg_engine 2) (default_request\<lparr>image_path := ''/in/notes.txt''\<rparr>)) =
     Inl (UnidentifiedImageError ''/in/notes.txt'') \<and>
   spawned (snd (cog_predict (demo_world svg_engine 2)
     (default_request\<lparr>image_path := ''/in/notes.txt''\<rparr>))) = []"
proof -
  have f: "files (demo_world svg_engine 2)
      (image_path (default_request\<lparr>image_path := ''/in/notes.txt''\<rparr>)) = Some ''hello''"
    by (simp add: demo_world_facts)
  have d: "decode (demo_world svg_engine 2) ''hello'' = None"
    by (simp only: demo_world_facts)
  have dom: "in_declared_domain (default_request\<lparr>image_path := ''/in/notes.txt''\<rparr>)"
    by (simp add: in_declared_domain_def default_request_def)
  note inst = undecodable_image_stops [OF f d]
  from inst dom
  have "fst (cog_predict (demo_world svg_engine 2) (default_request\<lparr>image_path := ''/in/notes.txt''\<rparr>)) =
     Inl (UnidentifiedImageError (image_path (default_request\<lparr>image_path := ''/in/notes.txt''\<rparr>)))"
    by blast
  then have err: "fst (cog_predict (demo_world svg_engine 2)
      (default_request\<lparr>image_path := ''/in/notes.txt''\<rparr>)) =
     Inl (UnidentifiedImageError ''/in/notes.txt'')"
    by simp
  from inst have "spawned (snd (cog_predict (demo_world svg_engine 2)
     (default_request\<lparr>image_path := ''/in/notes.txt''\<rparr>))) = spawned (demo_world svg_engine 2)"
    by blast
  then have "spawned (snd (cog_predict (demo_world svg_engine 2)
     (default_request\<lparr>image_path := ''/in/notes.txt''\<rparr>))) = []"
    by (simp only: demo_world_facts)
  with f d dom err show ?thesis
    by (intro conjI)
qed

section \<open>The returned path\<close>

lemma mktemp_loop_Inr:
  "mktemp_loop fs dir pre suf names = Inr p \<Longrightarrow>
   fs p = None \<and> (\<exists>name. name \<in> set names \<and> p = path_join dir (pre @ name @ suf))"
proof (induction names)
  case Nil
  then show ?case by simp
next
  case (Cons name names)
  show ?case
  proof (cases "fs (path_join dir (pre @ name @ suf)) = None")
    case True
    with Cons.prems show ?thesis by auto
  next
    case False
    with Cons.prems have "mktemp_loop fs dir pre suf names = Inr p" by simp
    then show ?thesis using Cons.IH by auto
  qed
qed

lemma path_join_suffix: "\<exists>stem. path_join a (x @ suf) = stem @ suf"
proof -
  have "path_join a (x @ suf) = x @ suf \<or> path_join a (x @ suf) = (a @ x) @ suf \<or>
      path_join a (x @ suf) = (a @ ''/'' @ x) @ suf"
    by (simp add: path_join_def)
  then show ?thesis by blast
qed

lemma mktemp_Inr:
  assumes "mktemp w suf = Inr p"
  shows "files w p = None"
    and "\<exists>name. name \<in> set (candidate_names w) \<and> p = path_join (tempdir w) (''tmp'' @ name @ suf)"
    and "\<exists>stem. p = stem @ suf"
proof -
  from assms have *: "files w p = None \<and>
      (\<exists>name. name \<in> set (candidate_names w) \<and> p = path_join (tempdir w) (''tmp'' @ name @ suf))"
    unfolding mktemp_def by (rule mktemp_loop_Inr)
  then show "files w p = None"
    and "\<exists>name. name \<in> set (candidate_names w) \<and> p = path_join (tempdir w) (''tmp'' @ name @ suf)"
    by blast+
  from * obtain name where "p = path_join (tempdir w) ((''tmp'' @ name) @ suf)" by auto
  then show "\<exists>stem. p = stem @ suf"
    using path_join_suffix [of "tempdir w" "''tmp'' @ name" suf] by simp
qed

text \<open>
  C10: when the operation returns a path, exactly one process was started and that path
  is the value of its \<open>--output\<close> argument. It is the result of \<open>tempfile.mktemp\<close>: it
  did not exist when it was chosen, it is \<open>tmp\<close>, a generated name and \<open>.svg\<close> under
  the temporary directory, so it ends in \<open>.svg\<close>; and it does not depend on the
  request: in the same world every request that succeeds, whatever its image is called,
  gets this path.
\<close>

theorem returned_path:
  assumes "fst (cog_predict w r) = Inr p"
  shows "(\<exists>argv cp. spawned (snd (cog_predict w r)) = spawned w @ [(argv, cp)] \<and>
            argv ! 3 = ''--output'' \<and> argv ! 4 = p) \<and>
    mktemp w ''.svg'' = Inr p \<and> files w p = None \<and>
    (\<exists>name. name \<in> set (candidate_names w) \<and>
       p = path_join (tempdir w) (''tmp'' @ name @ ''.svg'')) \<and>
    (\<exists>stem. p = stem @ ''.svg'') \<and>
    (\<forall>r' p'. fst (cog_predict w r') = Inr p' \<longrightarrow> p' = p)"
proof -
  from assms obtain b img prog cp fs' where
    dom: "in_declared_domain r" and
    reach: "files w (image_path r) = Some b" "decode w b = Some img"
      "print_settings w r = Inr ()"
      "mktemp w ''.svg'' = Inr p" "path_programs w ''vtracer'' = Some prog"
      "prog (build_cmd w r p) (files w) = (cp, fs')"
    by (rule cog_predict_returned)
  have "cog_predict w r = predict w r"
    using dom by (rule cog_predict_valid)
  then have "spawned (snd (cog_predict w r)) = spawned w @ [(build_cmd w r p, cp)]"
    by (simp add: predict_engine_world [OF reach])
  then have started: "\<exists>argv cp. spawned (snd (cog_predict w r)) = spawned w @ [(argv, cp)] \<and>
      argv ! 3 = ''--output'' \<and> argv ! 4 = p"
    using build_cmd_output [of w r p] by blast
  have same: "p' = p" if "fst (cog_predict w r') = Inr p'" for r' p'
  proof -
    from that have "mktemp w ''.svg'' = Inr p'"
      by (rule cog_predict_returned)
    with reach(4) show ?thesis by simp
  qed
  from started reach(4) mktemp_Inr [OF reach(4)] same show ?thesis
    by (intro conjI allI impI)
qed

text \<open>On the default request; the second request names another file and gets the same path.\<close>

theorem returned_path_witness:
  "fst (cog_predict (demo_world svg_engine 2) default_request) = Inr ''/tmp/tmpk3x9q2ab.svg'' \<and>
   mktemp (demo_world svg_engine 2) ''.svg'' = Inr ''/tmp/tmpk3x9q2ab.svg'' \<and>
   files (demo_world svg_engine 2) ''/tmp/tmpk3x9q2ab.svg'' = None \<and>
   (\<exists>stem. ''/tmp/tmpk3x9q2ab.svg'' = stem @ ''.svg'')"
proof -
  note inst = returned_path [OF demo_svg_run(1)]
  from inst have "mktemp (demo_world svg_engine 2) ''.svg'' = Inr ''/tmp/tmpk3x9q2ab.svg''"
    by blast
  moreover from inst have "files (demo_world svg_engine 2) ''/tmp/tmpk3x9q2ab.svg'' = None"
    by blast
  moreover from inst have "\<exists>stem. ''/tmp/tmpk3x9q2ab.svg'' = stem @ ''.svg''"
    by blast
  ultimately show ?thesis
    using demo_svg_run(1) by (intro conjI)
qed

section \<open>Two runs on the same image\<close>

lemma tracing_engine_deterministic: "deterministic_engine tracing_engine"
  unfolding deterministic_engine_def
proof (intro allI impI, elim conjE)
  fix argv1 argv2 :: "string list" and fs1 fs2 :: filesystem
  assume len: "4 < length argv1"
    and args: "argv1[2 := [], 4 := []] = argv2[2 := [], 4 := []]"
    and inp: "fs1 (argv1 ! 2) = fs2 (argv2 ! 2)"
  have "drop 5 (argv1[2 := [], 4 := []]) = drop 5 (argv2[2 := [], 4 := []])"
    by (simp only: args)
  then have rest: "drop 5 argv1 = drop 5 argv2"
    by simp
  show "returncode (fst (tracing_engine argv1 fs1)) = returncode (fst (tracing_engine argv2 fs2)) \<and>
    (returncode (fst (tracing_engine argv1 fs1)) = 0 \<longrightarrow>
       snd (tracing_engine argv1 fs1) (argv1 ! 4) = snd (tracing_engine argv2 fs2) (argv2 ! 4))"
  proof (cases "fs2 (argv2 ! 2)")
    case None
    with inp show ?thesis by (simp add: tracing_engine_def)
  next
    case (Some img)
    with inp rest show ?thesis by (simp add: tracing_engine_def)
  qed
qed

lemma build_cmd_params:
  assumes "r2 = r1\<lparr>image_path := q\<rparr>" and "float_str w2 = float_str w1"
  shows "(build_cmd w1 r1 p1)[2 := [], 4 := []] = (build_cmd w2 r2 p2)[2 := [], 4 := []]"
  using assms by (simp add: build_cmd_def)

lemma build_cmd_input: "4 < length (build_cmd w r out)" "build_cmd w r out ! 2 = image_path r"
  by (simp_all add: build_cmd_def)

text \<open>
  C9: two runs, in worlds that may differ in everything else (clock, temporary names,
  where the image is stored), with the same engine, the same image content and the same
  parameter values. If the engine is deterministic (its exit status and the file it
  writes depend only on the content of its input and on its other arguments) and
  both runs return a path, the two files hold the same bytes.
\<close>

theorem identical_runs_identical_output:
  assumes "deterministic_engine prog"
    and "path_programs w1 ''vtracer'' = Some prog"
    and "path_programs w2 ''vtracer'' = Some prog"
    and "files w1 (image_path r1) = files w2 (image_path r2)"
    and "r2 = r1\<lparr>image_path := image_path r2\<rparr>"
    and "float_str w2 = float_str w1"
    and "fst (cog_predict w1 r1) = Inr p1"
    and "fst (cog_predict w2 r2) = Inr p2"
  shows "files (snd (cog_predict w1 r1)) p1 = files (snd (cog_predict w2 r2)) p2 \<and>
    files (snd (cog_predict w1 r1)) p1 \<noteq> None"
proof -
  from assms(7) obtain b1 img1 prog1 cp1 fs1 sout1 serr1 where
    dom1: "in_declared_domain r1" and
    reach1: "files w1 (image_path r1) = Some b1" "decode w1 b1 = Some img1"
      "print_settings w1 r1 = Inr ()"
      "mktemp w1 ''.svg'' = Inr p1" "path_programs w1 ''vtracer'' = Some prog1"
      "prog1 (build_cmd w1 r1 p1) (files w1) = (cp1, fs1)" and
    text1: "stream_decode w1 (stdout cp1) = Some sout1"
      "stream_decode w1 (stderr cp1) = Some serr1" and
    ok1: "returncode cp1 = 0" "fs1 p1 \<noteq> None"
    by (rule cog_predict_returned)
  from assms(8) obtain b2 img2 prog2 cp2 fs2 where
    dom2: "in_declared_domain r2" and
    reach2: "files w2 (image_path r2) = Some b2" "decode w2 b2 = Some img2"
      "print_settings w2 r2 = Inr ()"
      "mktemp w2 ''.svg'' = Inr p2" "path_programs w2 ''vtracer'' = Some prog2"
      "prog2 (build_cmd w2 r2 p2) (files w2) = (cp2, fs2)"
    by (rule cog_predict_returned)
  from assms(2) reach1(5) have p1: "prog1 = prog" by simp
  from assms(3) reach2(5) have p2: "prog2 = prog" by simp
  have "cog_predict w1 r1 = predict w1 r1"
    using dom1 by (rule cog_predict_valid)
  then have after1: "files (snd (cog_predict w1 r1)) = fs1"
    by (simp add: predict_engine_world [OF reach1])
  have "cog_predict w2 r2 = predict w2 r2"
    using dom2 by (rule cog_predict_valid)
  then have after2: "files (snd (cog_predict w2 r2)) = fs2"
    by (simp add: predict_engine_world [OF reach2])
  let ?a1 = "build_cmd w1 r1 p1" and ?a2 = "build_cmd w2 r2 p2"
  have same_args: "?a1[2 := [], 4 := []] = ?a2[2 := [], 4 := []]"
    using assms(5,6) by (rule build_cmd_params)
  have same_input: "files w1 (?a1 ! 2) = files w2 (?a2 ! 2)"
    using assms(4) by (simp only: build_cmd_input)
  from assms(1) have "returncode (fst (prog ?a1 (files w1))) = 0 \<longrightarrow>
      snd (prog ?a1 (files w1)) (?a1 ! 4) = snd (prog ?a2 (files w2)) (?a2 ! 4)"
    unfolding deterministic_engine_def
    using build_cmd_input(1) [of w1 r1 p1] same_args same_input by blast
  with reach1(6) reach2(6) ok1(1) have "fs1 p1 = fs2 p2"
    by (simp add: p1 p2 build_cmd_output)
  with ok1(2) show ?thesis
    by (simp add: after1 after2)
qed

text \<open>Two worlds with other clocks, other temporary names and the image under another name.\<close>

theorem identical_runs_identical_output_witness:
  "deterministic_engine tracing_engine \<and>
   path_programs (demo_world tracing_engine 2) ''vtracer'' = Some tracing_engine \<and>
   path_programs (other_world tracing_engine) ''vtracer'' = Some tracing_engine \<and>
   files (demo_world tracing_engine 2) ''/in/cat.png'' =
     files (other_world tracing_engine) ''/data/copy.png'' \<and>
   fst (cog_predict (demo_world tracing_engine 2) default_request) = Inr ''/tmp/tmpk3x9q2ab.svg'' \<and>
   fst (cog_predict (other_world tracing_engine) (default_request\<lparr>image_path := ''/data/copy.png''\<rparr>)) =
     Inr ''/var/tmp/tmpbbbbbbbb.svg'' \<and>
   files (snd (cog_predict (demo_world tracing_engine 2) default_request)) ''/tmp/tmpk3x9q2ab.svg'' =
     files (snd (cog_predict (other_world tracing_engine)
       (default_request\<lparr>image_path := ''/data/copy.png''\<rparr>))) ''/var/tmp/tmpbbbbbbbb.svg''"
proof -
  let ?r2 = "default_request\<lparr>image_path := ''/data/copy.png''\<rparr>"
  have e1: "path_programs (demo_world tracing_engine 2) ''vtracer'' = Some tracing_engine"
    by (simp only: demo_world_facts)
  have e2: "path_programs (other_world tracing_engine) ''vtracer'' = Some tracing_engine"
    by (simp add: other_world_def)
  have img: "files (demo_world tracing_engine 2) ''/in/cat.png'' =
     files (other_world tracing_engine) ''/data/copy.png''"
    by (simp add: demo_world_def other_world_def)
  have img': "files (demo_world tracing_engine 2) (image_path default_request) =
     files (other_world tracing_engine) (image_path ?r2)"
    using img by (simp add: default_request_def)
  have params: "?r2 = default_request\<lparr>image_path := image_path ?r2\<rparr>"
    by simp
  have fl: "float_str (other_world tracing_engine) = float_str (demo_world tracing_engine 2)"
    by (simp add: demo_world_def other_world_def)
  from identical_runs_identical_output [OF tracing_engine_deterministic e1 e2 img' params fl
      demo_tracing_run]
  have "files (snd (cog_predict (demo_world tracing_engine 2) default_request)) ''/tmp/tmpk3x9q2ab.svg'' =
     files (snd (cog_predict (other_world tracing_engine) ?r2)) ''/var/tmp/tmpbbbbbbbb.svg''"
    by (rule conjunct1)
  with tracing_engine_deterministic e1 e2 img demo_tracing_run show ?thesis
    by (intro conjI)
qed

end
